theory Spec2Isabelle
  imports Main "HOL-Library.Word"
begin

section \<open>The tree arena\<close>

text \<open>
  A \<^verbatim>\<open>Tree*\<close> is an index into the evaluator's arena \<^verbatim>\<open>pool\<close>. The arena only
  grows: \<^verbatim>\<open>pool.emplaceBack\<close> stores a node at the next free index and returns it.
  Nodes are the alternatives of the variant \<^verbatim>\<open>Tree::v\<close>; the list constructors of HOL
  keep their names, so \<^verbatim>\<open>Nil\<close> and \<^verbatim>\<open>Cons\<close> carry a suffix.
\<close>

type_synonym addr = nat

datatype Tree =
    NilT
  | ConsT addr addr
  | Symbol string
  | String string
  | Nat64 "64 word"
  | Bool bool
  | Unit
  | Closure addr addr addr
  | Prim nat

subsection \<open>The lexer and the parser, as far as the evaluator drives them\<close>

text \<open>
  Modelled from the spec: the lexer and the Earley parser that \<^verbatim>\<open>evaluator.cpp\<close> calls are
  not among the sources (section 6 of the specification lists their operations). Their
  state is what the evaluator has installed in them since the last clear, and what the
  parser hands back: the sentence and the forest. A pattern is kept as the expression the
  builder calls of \<^verbatim>\<open>treePattern\<close> denote.
\<close>

datatype NFA =
    Empty
  | Any
  | Utf8seg
  | Chars string
  | Except string
  | Range "8 word" "8 word"
  | Word string
  | Alt "NFA list"
  | Concat "NFA list"
  | Opt NFA
  | Star NFA
  | Plus NFA

type_synonym Location = "nat \<times> nat"

record Token =
  pattern :: nat
  lexeme :: string
  startPos :: nat
  endPos :: nat

record State =
  stateStartPos :: nat
  rule :: nat
  progress :: nat

type_synonym Links = "(Location \<times> Location option) list"

record EarleyParser =
  ignoredSymbol :: nat
  startSymbol :: nat
  parserPatterns :: "(nat \<times> 64 word) list"
  parserRules :: "((nat \<times> 64 word) \<times> (nat \<times> 64 word) list) list"
  sentence :: "Token list"
  forest :: "(State \<times> Links) list list"

subsection \<open>The primitives\<close>

text \<open>
  The registry \<^verbatim>\<open>prims\<close> holds pairs \<^verbatim>\<open>(evalParams, f)\<close>. Each lambda of the constructor
  is one constructor here; the lambdas of the macros \<^verbatim>\<open>unary\<close>, \<^verbatim>\<open>binary\<close> and
  \<^verbatim>\<open>binpred\<close> carry their operator, and those of \<^verbatim>\<open>binpred\<close> the two nodes
  \<^verbatim>\<open>btrue\<close> and \<^verbatim>\<open>bfalse\<close> they capture.
\<close>

datatype NatOp = Add | Sub | Mul | Div | Mod
datatype NatPred = Le | Lt | Ge | Gt | Eq | Neq
datatype BoolOp = And | Or | Implies | Iff

datatype PrimFn =
    P_lambda | P_cond | P_quote | P_unquote | P_match | P_let | P_letrec
  | P_define | P_define_macro | P_set | P_begin
  | P_eval | P_env | P_get_syntax | P_set_syntax | P_get_global_env | P_set_global_env
  | P_nil | P_cons | P_list | P_id
  | P_string_symbol | P_string_nat64 | P_string_escape | P_string_unescape
  | P_string_length | P_string_char | P_char_string | P_string_concat
  | P_string_substr | P_string_eq
  | P_minus | P_binary NatOp | P_binpred NatPred addr addr
  | P_not | P_binary_bool BoolOp
  | P_print | P_display | P_debug_save_file

subsection \<open>The evaluator's members\<close>

text \<open>
  Beside the members of the class, the record holds what the evaluator does to the world
  (the lines written to \<^verbatim>\<open>std::cout\<close>, the files written, and which files can be
  opened), and one field that is not in the program: \<open>invoked\<close> lists the primitives
  applied so far, oldest first.
\<close>

record Evaluator =
  pool :: "addr \<Rightarrow> Tree"
  poolSize :: nat
  nil :: addr
  unit :: addr
  patterns :: addr
  rules :: addr
  symbolNames :: "string list"
  nameSymbols :: "string \<rightharpoonup> nat"
  patternNames :: "string list"
  ruleNames :: "string list"
  lexer :: "NFA list"
  parser :: EarleyParser
  globalEnv :: addr
  macros :: "(addr \<times> addr \<times> addr) list"
  nameMacros :: "string \<rightharpoonup> nat"
  prims :: "(bool \<times> PrimFn) list"
  namePrims :: "string \<rightharpoonup> nat"
  cout :: "string list"
  files :: "(string \<times> string) list"
  canOpen :: "string \<Rightarrow> bool"
  invoked :: "PrimFn list"

subsection \<open>Outcomes\<close>

text \<open>
  Modelled from the spec: the exception classes and \<^verbatim>\<open>expect<T>\<close> are declared in
  \<^verbatim>\<open>evaluator.hpp\<close>, which is not among the sources. A \<^verbatim>\<open>PartialEvalError\<close> carries the
  offending subtree, an \<^verbatim>\<open>EvalError\<close> the surrounding tree too (section 6). The text of a
  message is reduced to its kind. \<^verbatim>\<open>notimplemented\<close> and \<^verbatim>\<open>unreachable\<close> are fatal;
  \<^verbatim>\<open>std::stoull\<close> throws \<^verbatim>\<open>std::invalid_argument\<close> or \<^verbatim>\<open>std::out_of_range\<close>.

  An exception leaves the evaluator as it is at the throw, so a thrown outcome carries
  the state. \<open>Fault\<close> is where C++ gives no behaviour or terminates the process:
  \<^verbatim>\<open>get<T>\<close> on the wrong alternative, an index outside a vector, a division by zero.
  \<open>OutOfFuel\<close> is no outcome of the program: the recursion bound of the model was reached.
\<close>

datatype Message =
    Expected
  | UnboundSymbol string
  | NonexhaustivePatterns
  | PatternMatchingFailed
  | NotAFunction
  | IndexOutOfRange
  | CharacterCodeOutOfRange
  | CouldNotOpenFile
  | InvalidEscape

datatype Error =
    PartialEvalError Message addr
  | EvalError Message addr addr
  | NotImplemented
  | Unreachable
  | StdInvalidArgument
  | StdOutOfRange

datatype Fault = BadVariantAccess | IndexOutOfBounds | DivisionByZero

datatype 'a outcome =
    Return 'a Evaluator
  | Throw Error Evaluator
  | Fault Fault
  | OutOfFuel

type_synonym 'a M = "Evaluator \<Rightarrow> 'a outcome"

definition andThen :: "'a outcome \<Rightarrow> ('a \<Rightarrow> 'b M) \<Rightarrow> 'b outcome" where
  "andThen r f =
     (case r of
        Return a st \<Rightarrow> f a st
      | Throw e st \<Rightarrow> Throw e st
      | Fault x \<Rightarrow> Fault x
      | OutOfFuel \<Rightarrow> OutOfFuel)"

subsection \<open>Printing and escaping\<close>

text \<open>
  \<^verbatim>\<open>Tree::toString\<close>, \<^verbatim>\<open>Tree::escapeString\<close> and \<^verbatim>\<open>Tree::unescapeString\<close> are
  defined in \<^verbatim>\<open>tree.hpp\<close>, which is not among the sources: they are parameters of the
  model. \<^verbatim>\<open>unescapeString\<close> may fail (section 6: other escape sequences are errors).
\<close>

record TreeOps =
  toString :: "(addr \<Rightarrow> Tree) \<Rightarrow> addr \<Rightarrow> string"
  escapeString :: "string \<Rightarrow> string"
  unescapeString :: "string \<Rightarrow> Error + string"

subsection \<open>Allocation and the typed accessors\<close>

definition emplaceBack :: "Tree \<Rightarrow> Evaluator \<Rightarrow> addr \<times> Evaluator" where
  "emplaceBack t st =
     (poolSize st, st\<lparr>pool := (pool st)(poolSize st := t), poolSize := Suc (poolSize st)\<rparr>)"

definition alloc :: "Tree \<Rightarrow> addr M" where
  "alloc t st = (case emplaceBack t st of (a, st') \<Rightarrow> Return a st')"

definition holdsCons :: "Evaluator \<Rightarrow> addr \<Rightarrow> bool" where
  "holdsCons st e = (case pool st e of ConsT _ _ \<Rightarrow> True | _ \<Rightarrow> False)"

definition expectCons :: "addr \<Rightarrow> (addr \<times> addr) M" where
  "expectCons e st =
     (case pool st e of ConsT h t \<Rightarrow> Return (h, t) st | _ \<Rightarrow> Throw (PartialEvalError Expected e) st)"

definition expectNil :: "addr \<Rightarrow> unit M" where
  "expectNil e st =
     (case pool st e of NilT \<Rightarrow> Return () st | _ \<Rightarrow> Throw (PartialEvalError Expected e) st)"

definition expectSymbol :: "addr \<Rightarrow> string M" where
  "expectSymbol e st =
     (case pool st e of Symbol s \<Rightarrow> Return s st | _ \<Rightarrow> Throw (PartialEvalError Expected e) st)"

definition expectString :: "addr \<Rightarrow> string M" where
  "expectString e st =
     (case pool st e of String s \<Rightarrow> Return s st | _ \<Rightarrow> Throw (PartialEvalError Expected e) st)"

definition expectNat64 :: "addr \<Rightarrow> (64 word) M" where
  "expectNat64 e st =
     (case pool st e of Nat64 n \<Rightarrow> Return n st | _ \<Rightarrow> Throw (PartialEvalError Expected e) st)"

definition expectBool :: "addr \<Rightarrow> bool M" where
  "expectBool e st =
     (case pool st e of Bool b \<Rightarrow> Return b st | _ \<Rightarrow> Throw (PartialEvalError Expected e) st)"

definition expectClosure :: "addr \<Rightarrow> (addr \<times> addr \<times> addr) M" where
  "expectClosure e st =
     (case pool st e of
        Closure env formal es \<Rightarrow> Return (env, formal, es) st
      | _ \<Rightarrow> Throw (PartialEvalError Expected e) st)"

section \<open>Environments\<close>

text \<open>
  \<^verbatim>\<open>extend\<close> conses the entry \<^verbatim>\<open>(s e)\<close> onto \<^verbatim>\<open>env\<close>. C++ leaves the order of the four
  allocations open; the model allocates from the inside out, left to right.
\<close>

definition extend :: "addr \<Rightarrow> string \<Rightarrow> addr \<Rightarrow> Evaluator \<Rightarrow> addr \<times> Evaluator" where
  "extend env s e st =
     (case emplaceBack (Symbol s) st of (k, st1) \<Rightarrow>
      case emplaceBack (ConsT e (nil st1)) st1 of (v, st2) \<Rightarrow>
      case emplaceBack (ConsT k v) st2 of (entry, st3) \<Rightarrow>
      emplaceBack (ConsT entry env) st3)"

text \<open>
  \<^verbatim>\<open>lookup\<close> walks the spine. The first argument bounds the number of iterations; the
  result \<open>None\<close> says the bound was reached, \<open>Some None\<close> is \<^verbatim>\<open>nullptr\<close>.
\<close>

fun lookup :: "nat \<Rightarrow> Evaluator \<Rightarrow> addr \<Rightarrow> string \<Rightarrow> addr option option" where
  "lookup 0 st it s = None"
| "lookup (Suc k) st it s =
     (case pool st it of
        ConsT entry tail \<Rightarrow>
          (case pool st entry of
             ConsT lhs t \<Rightarrow>
               (case pool st t of
                  ConsT rhs _ \<Rightarrow>
                    if pool st lhs = Symbol s
                    then Some (if pool st rhs = Unit then None else Some rhs)
                    else lookup k st tail s
                | _ \<Rightarrow> lookup k st tail s)
           | _ \<Rightarrow> lookup k st tail s)
      | _ \<Rightarrow> Some None)"

subsection \<open>Well-formed arenas\<close>

text \<open>
  The pointers of a node. In an arena built by \<^verbatim>\<open>emplaceBack\<close> every pointer of an
  allocated node is itself allocated (\<open>closed\<close>).
\<close>

fun kids :: "Tree \<Rightarrow> addr list" where
  "kids (ConsT h t) = [h, t]"
| "kids (Closure env formal es) = [env, formal, es]"
| "kids _ = []"

definition closed :: "Evaluator \<Rightarrow> bool" where
  "closed st = list_all (\<lambda>a. list_all (\<lambda>c. c < poolSize st) (kids (pool st a))) [0..<poolSize st]"

definition agree :: "Evaluator \<Rightarrow> Evaluator \<Rightarrow> bool" where
  "agree st st' = (poolSize st \<le> poolSize st' \<and> (\<forall>a. a < poolSize st \<longrightarrow> pool st' a = pool st a))"

text \<open>The members as the constructor's initialiser list leaves them.\<close>

definition initMembers :: Evaluator where
  "initMembers =
     \<lparr> pool = (\<lambda>_. NilT)(0 := NilT, 1 := Unit), poolSize = 2, nil = 0, unit = 1,
       patterns = 0, rules = 0, symbolNames = [], nameSymbols = Map.empty,
       patternNames = [], ruleNames = [], lexer = [],
       parser = \<lparr> ignoredSymbol = 0, startSymbol = 0, parserPatterns = [], parserRules = [],
                  sentence = [], forest = [] \<rparr>,
       globalEnv = 0, macros = [], nameMacros = Map.empty, prims = [], namePrims = Map.empty,
       cout = [], files = [], canOpen = (\<lambda>_. True), invoked = [] \<rparr>"

section \<open>Library functions the primitives call\<close>

subsection \<open>\<^verbatim>\<open>std::stoull(s, nullptr, 0)\<close>\<close>

text \<open>
  \<^verbatim>\<open>std::stoull\<close> is the standard library's, modelled after its definition in the C++
  and C standards (\<^verbatim>\<open>strtoull\<close>): white space is skipped, a sign is optional, and with
  base 0 the prefix selects the base: \<^verbatim>\<open>0x\<close> or \<^verbatim>\<open>0X\<close> before a hexadecimal digit
  selects 16, any other leading \<^verbatim>\<open>0\<close> selects 8, anything else 10. The longest run of
  digits of that base is converted and what follows it is ignored (the position argument
  is \<^verbatim>\<open>nullptr\<close>). No digit at all throws \<^verbatim>\<open>std::invalid_argument\<close>, a value beyond
  \<open>2\<^sup>6\<^sup>4 - 1\<close> throws \<^verbatim>\<open>std::out_of_range\<close>, and a minus sign negates in the unsigned
  type.
\<close>

definition isspace :: "char \<Rightarrow> bool" where
  "isspace c = (of_char c \<in> {32, 9, 10, 11, 12, 13 :: nat})"

definition digitValue :: "char \<Rightarrow> nat option" where
  "digitValue c =
     (let n = (of_char c :: nat) in
      if 48 \<le> n \<and> n \<le> 57 then Some (n - 48)
      else if 97 \<le> n \<and> n \<le> 122 then Some (n - 87)
      else if 65 \<le> n \<and> n \<le> 90 then Some (n - 55)
      else None)"

definition isDigitOf :: "nat \<Rightarrow> char \<Rightarrow> bool" where
  "isDigitOf base c = (case digitValue c of Some d \<Rightarrow> d < base | None \<Rightarrow> False)"

definition digitsValue :: "nat \<Rightarrow> string \<Rightarrow> nat" where
  "digitsValue base ds = foldl (\<lambda>acc c. acc * base + the (digitValue c)) 0 ds"

definition detectBase :: "string \<Rightarrow> nat \<times> string" where
  "detectBase s =
     (case s of
        z # x # h # r \<Rightarrow>
          if z = CHR ''0'' \<and> (x = CHR ''x'' \<or> x = CHR ''X'') \<and> isDigitOf 16 h then (16, h # r)
          else if z = CHR ''0'' then (8, s) else (10, s)
      | z # r \<Rightarrow> if z = CHR ''0'' then (8, s) else (10, s)
      | [] \<Rightarrow> (10, s))"

definition stoull :: "string \<Rightarrow> Error + 64 word" where
  "stoull s =
     (let s1 = dropWhile isspace s;
          neg = (s1 \<noteq> [] \<and> hd s1 = CHR ''-'');
          s2 = (if s1 \<noteq> [] \<and> (hd s1 = CHR ''-'' \<or> hd s1 = CHR ''+'') then tl s1 else s1);
          (base, s3) = detectBase s2;
          ds = takeWhile (isDigitOf base) s3
      in if ds = [] then Inl StdInvalidArgument
         else if 2 ^ 64 \<le> digitsValue base ds then Inl StdOutOfRange
         else Inr (if neg then - word_of_nat (digitsValue base ds)
                   else word_of_nat (digitsValue base ds)))"

subsection \<open>Equality of trees\<close>

text \<open>
  Modelled from the spec: \<^verbatim>\<open>Tree::operator==\<close> is in \<^verbatim>\<open>tree.hpp\<close> too; section 3 makes
  it structural and deep. The first argument bounds the depth of the comparison.
\<close>

fun treeEq :: "nat \<Rightarrow> (addr \<Rightarrow> Tree) \<Rightarrow> addr \<Rightarrow> addr \<Rightarrow> bool option" where
  "treeEq 0 p a b = None"
| "treeEq (Suc k) p a b =
     (case (p a, p b) of
        (ConsT h t, ConsT h' t') \<Rightarrow>
          (case treeEq k p h h' of
             None \<Rightarrow> None
           | Some False \<Rightarrow> Some False
           | Some True \<Rightarrow> treeEq k p t t')
      | (Closure env formal es, Closure env' formal' es') \<Rightarrow>
          (case treeEq k p env env' of
             None \<Rightarrow> None
           | Some False \<Rightarrow> Some False
           | Some True \<Rightarrow>
               (case treeEq k p formal formal' of
                  None \<Rightarrow> None
                | Some False \<Rightarrow> Some False
                | Some True \<Rightarrow> treeEq k p es es'))
      | (x, y) \<Rightarrow> Some (x = y))"

section \<open>Primitive procedures\<close>

text \<open>
  A primitive returns a \<^verbatim>\<open>Result { env, e }\<close>; a \<^verbatim>\<open>Tree*\<close> converts to a result without
  environment, which \<^verbatim>\<open>eval\<close> returns as the value; a result with an environment asks
  for a tail call. C++ leaves the order in which the arguments of a call are evaluated
  open; the model evaluates them from right to left, as the compilers in use for this
  program do (so \<^verbatim>\<open>eval(env, rhs)\<close> in the last argument runs before \<^verbatim>\<open>expect\<close> in an
  earlier one), and the operands of a built-in operator from left to right.
\<close>

type_synonym Result = "addr option \<times> addr"

definition ret :: "addr \<Rightarrow> Result M" where
  "ret e st = Return (None, e) st"

definition throwStd :: "Error + 'a \<Rightarrow> 'a M" where
  "throwStd r st = (case r of Inl err \<Rightarrow> Throw err st | Inr a \<Rightarrow> Return a st)"

definition args1 :: "addr \<Rightarrow> addr M" where
  "args1 e st = andThen (expectCons e st) (\<lambda>(h, _). Return h)"

definition args2 :: "addr \<Rightarrow> (addr \<times> addr) M" where
  "args2 e st =
     andThen (expectCons e st) (\<lambda>(lhs, t) st.
     andThen (expectCons t st) (\<lambda>(rhs, _). Return (lhs, rhs)))"

definition prim_eval :: "addr \<Rightarrow> addr \<Rightarrow> Result M" where
  "prim_eval env e st =
     andThen (expectCons e st) (\<lambda>(h, t) st.
       if holdsCons st t
       then andThen (expectCons t st) (\<lambda>(env', _). Return (Some env', h))
       else Return (Some env, h) st)"

definition prim_get_syntax :: "addr \<Rightarrow> Result M" where
  "prim_get_syntax e st =
     andThen (alloc (ConsT (rules st) (nil st)) st) (\<lambda>r st.
     andThen (alloc (ConsT (patterns st) r) st) ret)"

definition prim_set_global_env :: "addr \<Rightarrow> Result M" where
  "prim_set_global_env e st =
     andThen (args1 e st) (\<lambda>h st. ret (unit st) (st\<lparr>globalEnv := h\<rparr>))"

definition prim_cons :: "addr \<Rightarrow> Result M" where
  "prim_cons e st =
     andThen (args2 e st) (\<lambda>(lhs, rhs) st. andThen (alloc (ConsT lhs rhs) st) ret)"

definition prim_id :: "addr \<Rightarrow> Result M" where
  "prim_id e st = andThen (args1 e st) ret"

definition stringArg :: "addr \<Rightarrow> string M" where
  "stringArg e st = andThen (args1 e st) expectString"

definition prim_string_symbol :: "addr \<Rightarrow> Result M" where
  "prim_string_symbol e st =
     andThen (stringArg e st) (\<lambda>s st. andThen (alloc (Symbol s) st) ret)"

definition prim_string_nat64 :: "addr \<Rightarrow> Result M" where
  "prim_string_nat64 e st =
     andThen (stringArg e st) (\<lambda>s st.
     andThen (throwStd (stoull s) st) (\<lambda>n st.
     andThen (alloc (Nat64 n) st) ret))"

definition prim_string_escape :: "TreeOps \<Rightarrow> addr \<Rightarrow> Result M" where
  "prim_string_escape X e st =
     andThen (stringArg e st) (\<lambda>s st. andThen (alloc (String (escapeString X s)) st) ret)"

definition prim_string_unescape :: "TreeOps \<Rightarrow> addr \<Rightarrow> Result M" where
  "prim_string_unescape X e st =
     andThen (stringArg e st) (\<lambda>s st.
     andThen (throwStd (unescapeString X s) st) (\<lambda>u st.
     andThen (alloc (String u) st) ret))"

definition prim_string_length :: "addr \<Rightarrow> Result M" where
  "prim_string_length e st =
     andThen (stringArg e st) (\<lambda>s st. andThen (alloc (Nat64 (word_of_nat (length s))) st) ret)"

definition prim_string_char :: "addr \<Rightarrow> Result M" where
  "prim_string_char e st =
     andThen (args2 e st) (\<lambda>(lhs, rhs) st.
     andThen (expectString lhs st) (\<lambda>sv st.
     andThen (expectNat64 rhs st) (\<lambda>iv st.
       if length sv \<le> unat iv then Throw (PartialEvalError IndexOutOfRange rhs) st
       else andThen (alloc (Nat64 (word_of_nat (of_char (sv ! unat iv)))) st) ret)))"

definition prim_char_string :: "addr \<Rightarrow> Result M" where
  "prim_char_string e st =
     andThen (args1 e st) (\<lambda>chr st.
     andThen (expectNat64 chr st) (\<lambda>cv st.
       if 256 \<le> unat cv then Throw (PartialEvalError CharacterCodeOutOfRange chr) st
       else andThen (alloc (String [char_of (unat cv)]) st) ret))"

definition prim_string_concat :: "addr \<Rightarrow> Result M" where
  "prim_string_concat e st =
     andThen (args2 e st) (\<lambda>(lhs, rhs) st.
     andThen (expectString rhs st) (\<lambda>b st.
     andThen (expectString lhs st) (\<lambda>a st.
     andThen (alloc (String (a @ b)) st) ret)))"

definition prim_string_substr :: "addr \<Rightarrow> Result M" where
  "prim_string_substr e st =
     andThen (expectCons e st) (\<lambda>(s, t) st.
     andThen (expectCons t st) (\<lambda>(pos, u) st.
     andThen (expectCons u st) (\<lambda>(len, _) st.
     andThen (expectString s st) (\<lambda>sv st.
     andThen (expectNat64 pos st) (\<lambda>p st.
     andThen (expectNat64 len st) (\<lambda>l st.
       let posv = (if length sv < unat p then length sv else unat p)
       in andThen (alloc (String (take (unat l) (drop posv sv))) st) ret))))))"

definition prim_string_eq :: "addr \<Rightarrow> Result M" where
  "prim_string_eq e st =
     andThen (args2 e st) (\<lambda>(lhs, rhs) st.
     andThen (expectString rhs st) (\<lambda>b st.
     andThen (expectString lhs st) (\<lambda>a st.
     andThen (alloc (Bool (a = b)) st) ret)))"

subsection \<open>Arithmetic and logic\<close>

text \<open>
  The macros \<^verbatim>\<open>unary\<close>, \<^verbatim>\<open>binary\<close> and \<^verbatim>\<open>binpred\<close> apply the C++ operator to the
  payloads. On \<^verbatim>\<open>uint64_t\<close> the operators wrap modulo \<open>2\<^sup>6\<^sup>4\<close>; \<^verbatim>\<open>/\<close> and \<^verbatim>\<open>%\<close> by
  zero have no defined behaviour. \<^verbatim>\<open>&&\<close> and \<^verbatim>\<open>||\<close> evaluate their right operand (and
  its \<^verbatim>\<open>expect\<close>) only when the left one does not decide.
\<close>

definition natOp :: "NatOp \<Rightarrow> 64 word \<Rightarrow> 64 word \<Rightarrow> Fault + 64 word" where
  "natOp op a b =
     (case op of
        Add \<Rightarrow> Inr (a + b)
      | Sub \<Rightarrow> Inr (a - b)
      | Mul \<Rightarrow> Inr (a * b)
      | Div \<Rightarrow> if b = 0 then Inl DivisionByZero else Inr (a div b)
      | Mod \<Rightarrow> if b = 0 then Inl DivisionByZero else Inr (a mod b))"

definition natPred :: "NatPred \<Rightarrow> 64 word \<Rightarrow> 64 word \<Rightarrow> bool" where
  "natPred op a b =
     (case op of
        Le \<Rightarrow> a \<le> b | Lt \<Rightarrow> a < b | Ge \<Rightarrow> b \<le> a | Gt \<Rightarrow> b < a
      | Eq \<Rightarrow> a = b | Neq \<Rightarrow> a \<noteq> b)"

definition prim_minus :: "addr \<Rightarrow> Result M" where
  "prim_minus e st =
     andThen (args1 e st) (\<lambda>lhs st.
     andThen (expectNat64 lhs st) (\<lambda>n st.
     andThen (alloc (Nat64 (- n)) st) ret))"

definition prim_binary :: "NatOp \<Rightarrow> addr \<Rightarrow> Result M" where
  "prim_binary op e st =
     andThen (args2 e st) (\<lambda>(lhs, rhs) st.
     andThen (expectNat64 lhs st) (\<lambda>a st.
     andThen (expectNat64 rhs st) (\<lambda>b st.
       case natOp op a b of
         Inl f \<Rightarrow> Fault f
       | Inr n \<Rightarrow> andThen (alloc (Nat64 n) st) ret)))"

definition prim_binpred :: "NatPred \<Rightarrow> addr \<Rightarrow> addr \<Rightarrow> addr \<Rightarrow> Result M" where
  "prim_binpred op btrue bfalse e st =
     andThen (args2 e st) (\<lambda>(lhs, rhs) st.
     andThen (expectNat64 lhs st) (\<lambda>a st.
     andThen (expectNat64 rhs st) (\<lambda>b st.
       ret (if natPred op a b then btrue else bfalse) st)))"

definition prim_not :: "addr \<Rightarrow> Result M" where
  "prim_not e st =
     andThen (args1 e st) (\<lambda>lhs st.
     andThen (expectBool lhs st) (\<lambda>b st.
     andThen (alloc (Bool (\<not> b)) st) ret))"

definition prim_binary_bool :: "BoolOp \<Rightarrow> addr \<Rightarrow> Result M" where
  "prim_binary_bool op e st =
     andThen (args2 e st) (\<lambda>(lhs, rhs) st.
     andThen (expectBool lhs st) (\<lambda>a st.
       if op = And \<and> \<not> a then andThen (alloc (Bool False) st) ret
       else if op = Or \<and> a then andThen (alloc (Bool True) st) ret
       else andThen (expectBool rhs st) (\<lambda>b st.
         andThen (alloc (Bool (case op of
                                 And \<Rightarrow> b
                               | Or \<Rightarrow> b
                               | Implies \<Rightarrow> (if a then b else True)
                               | Iff \<Rightarrow> (a = b))) st) ret)))"

subsection \<open>Diagnostics\<close>

definition prim_print :: "TreeOps \<Rightarrow> addr \<Rightarrow> Result M" where
  "prim_print X e st =
     andThen (args1 e st) (\<lambda>h st.
     andThen (alloc (String (toString X (pool st) h)) st) ret)"

definition prim_display :: "addr \<Rightarrow> Result M" where
  "prim_display e st =
     andThen (args1 e st) (\<lambda>h st.
     andThen (expectString h st) (\<lambda>s st.
       ret (unit st) (st\<lparr>cout := cout st @ [s]\<rparr>)))"

text \<open>
  \<^verbatim>\<open>debug_save_file\<close> opens (and so empties) the file before it looks at its second
  argument.
\<close>

definition prim_debug_save_file :: "addr \<Rightarrow> Result M" where
  "prim_debug_save_file e st =
     andThen (args2 e st) (\<lambda>(lhs, rhs) st.
     andThen (expectString lhs st) (\<lambda>name st.
       if \<not> canOpen st name then Throw (PartialEvalError CouldNotOpenFile lhs) st
       else andThen (expectString rhs (st\<lparr>files := (name, []) # files st\<rparr>)) (\<lambda>s st.
         ret (unit st) (st\<lparr>files := (name, s @ [CHR 0x0A]) # files st\<rparr>))))"

section \<open>Trees written as values\<close>

text \<open>
  The trees the parser and the macros build are finite and hold no closures. \<open>Term\<close>
  writes such a tree down; \<open>repr st a t\<close> says that the node at \<open>a\<close> is the root of
  \<open>t\<close> in the arena of \<open>st\<close>, and \<open>store\<close> allocates \<open>t\<close>, children first, with the
  shared \<^verbatim>\<open>nil\<close> and \<^verbatim>\<open>unit\<close> nodes of the evaluator (as \<^verbatim>\<open>makeList\<close> does).
\<close>

datatype Term =
    TNil
  | TCons Term Term
  | TSym string
  | TStr string
  | TNat "64 word"
  | TBool bool
  | TUnit

fun repr :: "Evaluator \<Rightarrow> addr \<Rightarrow> Term \<Rightarrow> bool" where
  "repr st a TNil = (pool st a = NilT)"
| "repr st a (TCons x y) =
     (case pool st a of ConsT h t \<Rightarrow> repr st h x \<and> repr st t y | _ \<Rightarrow> False)"
| "repr st a (TSym s) = (pool st a = Symbol s)"
| "repr st a (TStr s) = (pool st a = String s)"
| "repr st a (TNat n) = (pool st a = Nat64 n)"
| "repr st a (TBool b) = (pool st a = Bool b)"
| "repr st a TUnit = (pool st a = Unit)"

fun store :: "Term \<Rightarrow> Evaluator \<Rightarrow> addr \<times> Evaluator" where
  "store TNil st = (nil st, st)"
| "store TUnit st = (unit st, st)"
| "store (TCons x y) st =
     (case store x st of (h, st1) \<Rightarrow>
      case store y st1 of (t, st2) \<Rightarrow> emplaceBack (ConsT h t) st2)"
| "store (TSym s) st = emplaceBack (Symbol s) st"
| "store (TStr s) st = emplaceBack (String s) st"
| "store (TNat n) st = emplaceBack (Nat64 n) st"
| "store (TBool b) st = emplaceBack (Bool b) st"

definition TList :: "Term list \<Rightarrow> Term" where
  "TList ts = foldr TCons ts TNil"

text \<open>Argument lists in the fresh arena, for concrete runs.\<close>

definition oneArg :: "Term \<Rightarrow> addr \<times> Evaluator" where
  "oneArg t = store (TList [t]) initMembers"

definition twoArgs :: "Term \<Rightarrow> Term \<Rightarrow> addr \<times> Evaluator" where
  "twoArgs t u = store (TList [t, u]) initMembers"

section \<open>The pattern matcher\<close>

text \<open>
  \<^verbatim>\<open>match(e, pat, env, quoteMode)\<close> returns the flag and, through its reference
  parameter, the environment with the bindings made so far (also when it fails). The
  first argument bounds the depth of the recursion. The default of \<^verbatim>\<open>quoteMode\<close> is
  declared in the header; the callers that omit it mean the normal mode of section 4.4.
\<close>

definition headSymbol :: "Evaluator \<Rightarrow> addr \<Rightarrow> string option" where
  "headSymbol st h = (case pool st h of Symbol s \<Rightarrow> Some s | _ \<Rightarrow> None)"

definition isList :: "Evaluator \<Rightarrow> addr \<Rightarrow> bool" where
  "isList st e = (case pool st e of NilT \<Rightarrow> True | ConsT _ _ \<Rightarrow> True | _ \<Rightarrow> False)"

definition equalTrees :: "nat \<Rightarrow> addr \<Rightarrow> addr \<Rightarrow> addr \<Rightarrow> (bool \<times> addr) M" where
  "equalTrees k e pat env st =
     (case treeEq k (pool st) e pat of None \<Rightarrow> OutOfFuel | Some b \<Rightarrow> Return (b, env) st)"

fun match :: "nat \<Rightarrow> addr \<Rightarrow> addr \<Rightarrow> addr \<Rightarrow> bool \<Rightarrow> (bool \<times> addr) M" where
  "match 0 e pat env quoteMode st = OutOfFuel"
| "match (Suc k) e pat env quoteMode st =
     (case pool st pat of
        Symbol symb \<Rightarrow>
          if \<not> quoteMode
          then (if symb \<noteq> ''_''
                then (case extend env symb e st of (env', st') \<Rightarrow> Return (True, env') st')
                else Return (True, env) st)
          else equalTrees k e pat env st
      | ConsT h t \<Rightarrow>
          if headSymbol st h = Some ''quote'' \<and> \<not> quoteMode
          then andThen (expectCons t st) (\<lambda>(p, _). match k e p env True)
          else if headSymbol st h = Some ''unquote'' \<and> quoteMode
          then andThen (expectCons t st) (\<lambda>(p, _). match k e p env False)
          else if headSymbol st h = Some ''...''
          then Return (isList st e, env) st
          else (case pool st e of
                  ConsT eh et \<Rightarrow>
                    andThen (match k eh h env quoteMode st) (\<lambda>(ok, env') st'.
                      if ok then match k et t env' quoteMode st' else Return (False, env') st')
                | _ \<Rightarrow> Return (False, env) st)
      | _ \<Rightarrow> equalTrees k e pat env st)"

section \<open>The syntax installer\<close>

text \<open>
  Modelled from the spec: \<^verbatim>\<open>getSymbol\<close> is defined in the header; it interns a name and
  hands out the next identifier (sections 3 and 4.1). \<^verbatim>\<open>IgnoredSymbol\<close> is 0 and
  \<^verbatim>\<open>StartSymbol\<close> is 1.
\<close>

definition IgnoredSymbol :: nat where
  "IgnoredSymbol = 0"

definition StartSymbol :: nat where
  "StartSymbol = 1"

definition getSymbol :: "string \<Rightarrow> nat M" where
  "getSymbol name st =
     (case nameSymbols st name of
        Some sid \<Rightarrow> Return sid st
      | None \<Rightarrow>
          Return (length (symbolNames st))
            (st\<lparr>symbolNames := symbolNames st @ [name],
                nameSymbols := (nameSymbols st)(name \<mapsto> length (symbolNames st))\<rparr>))"

fun treePattern :: "nat \<Rightarrow> addr \<Rightarrow> NFA M"
  and listPatterns :: "nat \<Rightarrow> addr \<Rightarrow> NFA list M" where
  "treePattern 0 e st = OutOfFuel"
| "treePattern (Suc k) e st =
     andThen (expectCons e st) (\<lambda>(tag, t) st.
     andThen (expectSymbol tag st) (\<lambda>stag st.
       if stag = ''empty'' then Return Empty st
       else if stag = ''any'' then Return Any st
       else if stag = ''utf8seg'' then Return Utf8seg st
       else if stag = ''char'' then andThen (stringArg t st) (\<lambda>s. Return (Chars s))
       else if stag = ''except'' then andThen (stringArg t st) (\<lambda>s. Return (Except s))
       else if stag = ''range'' then
         andThen (expectCons t st) (\<lambda>(lbound, u) st.
         andThen (expectCons u st) (\<lambda>(ubound, _) st.
         andThen (expectNat64 ubound st) (\<lambda>u st.
         andThen (expectNat64 lbound st) (\<lambda>l. Return (Range (ucast l) (ucast u))))))
       else if stag = ''word'' then andThen (stringArg t st) (\<lambda>s. Return (Word s))
       else if stag = ''alt'' then andThen (listPatterns k t st) (\<lambda>ps. Return (Alt ps))
       else if stag = ''concat'' then andThen (listPatterns k t st) (\<lambda>ps. Return (Concat ps))
       else if stag = ''opt'' then
         andThen (args1 t st) (\<lambda>h st. andThen (treePattern k h st) (\<lambda>p. Return (Opt p)))
       else if stag = ''star'' then
         andThen (args1 t st) (\<lambda>h st. andThen (treePattern k h st) (\<lambda>p. Return (Star p)))
       else if stag = ''plus'' then
         andThen (args1 t st) (\<lambda>h st. andThen (treePattern k h st) (\<lambda>p. Return (Plus p)))
       else Throw NotImplemented st))"
| "listPatterns 0 e st = OutOfFuel"
| "listPatterns (Suc k) e st =
     (case pool st e of
        ConsT h t \<Rightarrow>
          andThen (treePattern k h st) (\<lambda>p st.
          andThen (listPatterns k t st) (\<lambda>ps. Return (p # ps)))
      | _ \<Rightarrow> Return [] st)"

fun listSymbols :: "nat \<Rightarrow> addr \<Rightarrow> (nat \<times> 64 word) list M" where
  "listSymbols 0 e st = OutOfFuel"
| "listSymbols (Suc k) e st =
     (case pool st e of
        ConsT h tail \<Rightarrow>
          andThen (expectCons h st) (\<lambda>(symb, t) st.
          andThen (expectCons t st) (\<lambda>(pre, _) st.
          andThen (expectNat64 pre st) (\<lambda>prec st.
          andThen (expectSymbol symb st) (\<lambda>name st.
          andThen (getSymbol name st) (\<lambda>sid st.
          andThen (listSymbols k tail st) (\<lambda>rest. Return ((sid, prec) # rest)))))))
      | _ \<Rightarrow> Return [] st)"

text \<open>
  The five destructurings at the head of both loops of \<^verbatim>\<open>setSyntax\<close>: an entry
  \<^verbatim>\<open>(name (symb pre) rhs)\<close>.
\<close>

definition syntaxEntry :: "addr \<Rightarrow> (addr \<times> addr \<times> addr \<times> addr) M" where
  "syntaxEntry entry st =
     andThen (expectCons entry st) (\<lambda>(name, t) st.
     andThen (expectCons t st) (\<lambda>(lhs, u) st.
     andThen (expectCons u st) (\<lambda>(rhs, _) st.
     andThen (expectCons lhs st) (\<lambda>(symb, v) st.
     andThen (expectCons v st) (\<lambda>(pre, _). Return (name, rhs, symb, pre))))))"

fun addPatterns :: "nat \<Rightarrow> addr \<Rightarrow> unit M" where
  "addPatterns 0 it st = OutOfFuel"
| "addPatterns (Suc k) it st =
     (case pool st it of
        ConsT entry tail \<Rightarrow>
          andThen (syntaxEntry entry st) (\<lambda>(name, rhs, symb, pre) st.
          andThen (expectSymbol symb st) (\<lambda>sname st.
          andThen (if sname = ''_'' then Return IgnoredSymbol st else getSymbol sname st) (\<lambda>sid st.
          andThen (expectSymbol name st) (\<lambda>pname st.
            let pid = length (patternNames st);
                st1 = st\<lparr>patternNames := patternNames st @ [pname]\<rparr>
            in andThen (treePattern k rhs st1) (\<lambda>nfa st2.
                 if length (lexer st2) \<noteq> pid then Throw Unreachable st2
                 else
                   let st3 = st2\<lparr>lexer := lexer st2 @ [nfa]\<rparr>
                   in andThen (expectNat64 pre st3) (\<lambda>prec st4.
                        if length (parserPatterns (parser st4)) \<noteq> pid
                        then Throw Unreachable st4
                        else addPatterns k tail
                               (st4\<lparr>parser := (parser st4)
                                   \<lparr>parserPatterns :=
                                      parserPatterns (parser st4) @ [(sid, prec)]\<rparr>\<rparr>)))))))
      | _ \<Rightarrow> Return () st)"

fun addRules :: "nat \<Rightarrow> addr \<Rightarrow> unit M" where
  "addRules 0 it st = OutOfFuel"
| "addRules (Suc k) it st =
     (case pool st it of
        ConsT entry tail \<Rightarrow>
          andThen (syntaxEntry entry st) (\<lambda>(name, rhs, symb, pre) st.
          andThen (expectSymbol symb st) (\<lambda>sname st.
          andThen (if sname = ''_'' then Return StartSymbol st else getSymbol sname st) (\<lambda>sid st.
          andThen (expectSymbol name st) (\<lambda>rname st.
            let rid = length (ruleNames st);
                st1 = st\<lparr>ruleNames := ruleNames st @ [rname]\<rparr>
            in andThen (listSymbols k rhs st1) (\<lambda>syms st2.
               andThen (expectNat64 pre st2) (\<lambda>prec st3.
                 if length (parserRules (parser st3)) \<noteq> rid then Throw Unreachable st3
                 else addRules k tail
                        (st3\<lparr>parser := (parser st3)
                            \<lparr>parserRules :=
                               parserRules (parser st3) @ [((sid, prec), syms)]\<rparr>\<rparr>)))))))
      | _ \<Rightarrow> Return () st)"

definition setSyntax :: "nat \<Rightarrow> addr \<Rightarrow> addr \<Rightarrow> unit M" where
  "setSyntax k p r st =
     (let st1 = st\<lparr>symbolNames := [''_'', ''_''], nameSymbols := Map.empty,
                     patternNames := [], ruleNames := [], lexer := [],
                     parser := (parser st)\<lparr>parserPatterns := [], parserRules := [],
                                            ignoredSymbol := IgnoredSymbol,
                                            startSymbol := StartSymbol\<rparr>,
                     patterns := p, rules := r\<rparr>
      in andThen (addPatterns k p st1) (\<lambda>_. addRules k r))"

definition prim_set_syntax :: "nat \<Rightarrow> addr \<Rightarrow> Result M" where
  "prim_set_syntax k e st =
     andThen (args2 e st) (\<lambda>(p, r) st.
     andThen (setSyntax k p r st) (\<lambda>_ st. ret (unit st) st))"

section \<open>The evaluator\<close>

text \<open>
  \<^verbatim>\<open>eval\<close> and the functions around it call each other. Each function below takes the
  evaluator it calls back as its first argument \<open>ev\<close>, and a bound \<open>k\<close> on its own
  loop or recursion; \<open>eval\<close> at depth \<open>n + 1\<close> passes \<open>eval\<close> at depth \<open>n\<close>.

  A structured binding \<^verbatim>\<open>const auto& [head, tail] = get<Cons>(e)\<close> names the fields of the
  node; a field is read when it is used. The primitives \<^verbatim>\<open>set\<close> and \<^verbatim>\<open>letrec\<close> assign
  to head fields (and to nothing else), so a head that is used after a call of \<^verbatim>\<open>eval\<close>
  is read again, with \<open>headOf\<close>.
\<close>

type_synonym Ev = "addr \<Rightarrow> addr \<Rightarrow> addr M"

definition headOf :: "Evaluator \<Rightarrow> addr \<Rightarrow> addr" where
  "headOf st a = (case pool st a of ConsT h _ \<Rightarrow> h | _ \<Rightarrow> a)"

definition setHead :: "addr \<Rightarrow> addr \<Rightarrow> Evaluator \<Rightarrow> Evaluator" where
  "setHead a v st =
     st\<lparr>pool := (pool st)(a := (case pool st a of ConsT _ t \<Rightarrow> ConsT v t | x \<Rightarrow> x))\<rparr>"

definition decorate :: "addr \<Rightarrow> 'a outcome \<Rightarrow> 'a outcome" where
  "decorate e r =
     (case r of
        Throw (PartialEvalError m at) st \<Rightarrow> Throw (EvalError m at e) st
      | _ \<Rightarrow> r)"

fun evalList :: "Ev \<Rightarrow> nat \<Rightarrow> addr \<Rightarrow> addr \<Rightarrow> addr M" where
  "evalList ev 0 env e st = OutOfFuel"
| "evalList ev (Suc k) env e st =
     (case pool st e of
        NilT \<Rightarrow> Return e st
      | ConsT head tail \<Rightarrow>
          andThen (ev env head st) (\<lambda>ehead st1.
          andThen (evalList ev k env tail st1) (\<lambda>etail st2.
            if ehead = headOf st2 e \<and> etail = tail then Return e st2
            else alloc (ConsT ehead etail) st2))
      | _ \<Rightarrow> ev env e st)"

fun beginLoop :: "Ev \<Rightarrow> nat \<Rightarrow> addr \<Rightarrow> addr \<Rightarrow> addr \<Rightarrow> addr M" where
  "beginLoop ev 0 env e it st = OutOfFuel"
| "beginLoop ev (Suc k) env e it st =
     (case pool st it of
        ConsT head tail \<Rightarrow>
          if \<not> holdsCons st tail then andThen (expectNil tail st) (\<lambda>_. Return head)
          else andThen (ev env head st) (\<lambda>_. beginLoop ev k env e tail)
      | _ \<Rightarrow> andThen (expectNil e st) (\<lambda>_ st. Return (unit st) st))"

definition beginList :: "Ev \<Rightarrow> nat \<Rightarrow> addr \<Rightarrow> addr \<Rightarrow> addr M" where
  "beginList ev k env e = beginLoop ev k env e e"

fun quasiquote :: "Ev \<Rightarrow> nat \<Rightarrow> addr \<Rightarrow> addr \<Rightarrow> addr M" where
  "quasiquote ev 0 env e st = OutOfFuel"
| "quasiquote ev (Suc k) env e st =
     (case pool st e of
        ConsT head tail \<Rightarrow>
          if pool st head = Symbol ''unquote''
          then andThen (args1 tail st) (ev env)
          else
            andThen (quasiquote ev k env head st) (\<lambda>ehead st1.
            andThen (quasiquote ev k env tail st1) (\<lambda>etail st2.
              if ehead = headOf st2 e \<and> etail = tail then Return e st2
              else alloc (ConsT ehead etail) st2))
      | _ \<Rightarrow> Return e st)"

subsection \<open>Primitive forms\<close>

definition prim_lambda :: "addr \<Rightarrow> addr \<Rightarrow> Result M" where
  "prim_lambda env e st =
     andThen (expectCons e st) (\<lambda>(formal, es) st.
     andThen (alloc (Closure env formal es) st) ret)"

definition prim_cond :: "Ev \<Rightarrow> addr \<Rightarrow> addr \<Rightarrow> Result M" where
  "prim_cond ev env e st =
     andThen (expectCons e st) (\<lambda>(test, t) st.
     andThen (expectCons t st) (\<lambda>(iftrue, u) st.
       let hasElse = holdsCons st u
       in andThen (ev env test st) (\<lambda>b st.
          andThen (expectBool b st) (\<lambda>result st.
            Return (Some env,
                    if result then headOf st t
                    else if hasElse then headOf st u else unit st) st))))"

definition prim_quote :: "Ev \<Rightarrow> nat \<Rightarrow> addr \<Rightarrow> addr \<Rightarrow> Result M" where
  "prim_quote ev k env e st =
     andThen (args1 e st) (\<lambda>h st. andThen (quasiquote ev k env h st) ret)"

definition prim_unquote :: "Ev \<Rightarrow> addr \<Rightarrow> addr \<Rightarrow> Result M" where
  "prim_unquote ev env e st =
     andThen (args1 e st) (\<lambda>h st. andThen (ev env h st) ret)"

fun matchClauses :: "nat \<Rightarrow> addr \<Rightarrow> addr \<Rightarrow> addr \<Rightarrow> addr \<Rightarrow> Result M" where
  "matchClauses 0 env target clauses it st = OutOfFuel"
| "matchClauses (Suc k) env target clauses it st =
     (case pool st it of
        ConsT clause tail \<Rightarrow>
          andThen (expectCons clause st) (\<lambda>(pat, u) st.
          andThen (match k target pat env False st) (\<lambda>(ok, newEnv) st.
            if ok then andThen (expectCons u st) (\<lambda>(expr, _). Return (Some newEnv, expr))
            else matchClauses k env target clauses tail st))
      | _ \<Rightarrow> Throw (PartialEvalError NonexhaustivePatterns clauses) st)"

definition prim_match :: "Ev \<Rightarrow> nat \<Rightarrow> addr \<Rightarrow> addr \<Rightarrow> Result M" where
  "prim_match ev k env e st =
     andThen (expectCons e st) (\<lambda>(head, t) st.
     andThen (expectCons t st) (\<lambda>_ st.
     andThen (ev env head st) (\<lambda>target st.
       matchClauses k env target (headOf st t) (headOf st t) st)))"

fun letLoop :: "Ev \<Rightarrow> nat \<Rightarrow> addr \<Rightarrow> addr \<Rightarrow> addr M" where
  "letLoop ev 0 env it st = OutOfFuel"
| "letLoop ev (Suc k) env it st =
     (case pool st it of
        ConsT d tail \<Rightarrow>
          andThen (expectCons d st) (\<lambda>(lhs, t) st.
          andThen (expectCons t st) (\<lambda>(rhs, _) st.
          andThen (ev env rhs st) (\<lambda>v st.
          andThen (expectSymbol (headOf st d) st) (\<lambda>s st.
            case extend env s v st of (env', st') \<Rightarrow> letLoop ev k env' tail st'))))
      | _ \<Rightarrow> Return env st)"

definition prim_let :: "Ev \<Rightarrow> nat \<Rightarrow> addr \<Rightarrow> addr \<Rightarrow> Result M" where
  "prim_let ev k env e st =
     andThen (expectCons e st) (\<lambda>(defs, es) st.
     andThen (letLoop ev k env defs st) (\<lambda>env' st.
     andThen (beginList ev k env' es st) (\<lambda>b. Return (Some env', b))))"

text \<open>
  \<^verbatim>\<open>letrec\<close> first binds every name to \<^verbatim>\<open>unit\<close> and keeps a pointer to the head field
  of each new value cell \<^verbatim>\<open>(unit)\<close>; the model keeps the address of the cell.
\<close>

definition valueCell :: "Evaluator \<Rightarrow> addr \<Rightarrow> addr option" where
  "valueCell st env =
     (case pool st env of
        ConsT entry _ \<Rightarrow> (case pool st entry of ConsT _ cell \<Rightarrow>
                             (case pool st cell of ConsT _ _ \<Rightarrow> Some cell | _ \<Rightarrow> None)
                           | _ \<Rightarrow> None)
      | _ \<Rightarrow> None)"

fun letrecDeclare :: "nat \<Rightarrow> addr \<Rightarrow> addr \<Rightarrow> (addr \<times> addr list) M" where
  "letrecDeclare 0 env it st = OutOfFuel"
| "letrecDeclare (Suc k) env it st =
     (case pool st it of
        ConsT d tail \<Rightarrow>
          andThen (expectCons d st) (\<lambda>(lhs, _) st.
          andThen (expectSymbol lhs st) (\<lambda>s st.
            case extend env s (unit st) st of (env', st') \<Rightarrow>
              (case valueCell st' env' of
                 None \<Rightarrow> Fault BadVariantAccess
               | Some cell \<Rightarrow>
                   andThen (letrecDeclare k env' tail st') (\<lambda>(envF, refs).
                     Return (envF, cell # refs)))))
      | _ \<Rightarrow> Return (env, []) st)"

fun letrecAssign :: "Ev \<Rightarrow> nat \<Rightarrow> addr \<Rightarrow> addr list \<Rightarrow> addr \<Rightarrow> unit M" where
  "letrecAssign ev 0 env refs it st = OutOfFuel"
| "letrecAssign ev (Suc k) env refs it st =
     (case pool st it of
        ConsT d tail \<Rightarrow>
          andThen (expectCons d st) (\<lambda>(lhs, t) st.
          andThen (expectCons t st) (\<lambda>(rhs, _) st.
          andThen (ev env rhs st) (\<lambda>v st.
            case refs of
              [] \<Rightarrow> Fault IndexOutOfBounds
            | r # refs' \<Rightarrow> letrecAssign ev k env refs' tail (setHead r v st))))
      | _ \<Rightarrow> Return () st)"

definition prim_letrec :: "Ev \<Rightarrow> nat \<Rightarrow> addr \<Rightarrow> addr \<Rightarrow> Result M" where
  "prim_letrec ev k env e st =
     andThen (expectCons e st) (\<lambda>(defs, es) st.
     andThen (letrecDeclare k env defs st) (\<lambda>(env', refs) st.
     andThen (letrecAssign ev k env' refs defs st) (\<lambda>_ st.
     andThen (beginList ev k env' es st) (\<lambda>b. Return (Some env', b)))))"

definition prim_define :: "Ev \<Rightarrow> addr \<Rightarrow> addr \<Rightarrow> Result M" where
  "prim_define ev env e st =
     andThen (args2 e st) (\<lambda>(_, rhs) st.
     andThen (ev env rhs st) (\<lambda>v st.
     andThen (expectSymbol (headOf st e) st) (\<lambda>s st.
       case extend (globalEnv st) s v st of (g', st') \<Rightarrow>
         ret (unit st') (st'\<lparr>globalEnv := g'\<rparr>))))"

text \<open>
  Modelled from the spec: \<^verbatim>\<open>addMacro\<close> is defined in the header. The macro registry is a
  sequence of closures and a map from names to positions (section 3); a closure is stored
  by value.
\<close>

definition addMacro :: "string \<Rightarrow> addr \<times> addr \<times> addr \<Rightarrow> Evaluator \<Rightarrow> Evaluator" where
  "addMacro name cl st =
     st\<lparr>macros := macros st @ [cl], nameMacros := (nameMacros st)(name \<mapsto> length (macros st))\<rparr>"

definition prim_define_macro :: "Ev \<Rightarrow> addr \<Rightarrow> addr \<Rightarrow> Result M" where
  "prim_define_macro ev env e st =
     andThen (args2 e st) (\<lambda>(_, rhs) st.
     andThen (ev env rhs st) (\<lambda>v st.
     andThen (expectClosure v st) (\<lambda>cl st.
     andThen (expectSymbol (headOf st e) st) (\<lambda>name st.
       ret (unit st) (addMacro name cl st)))))"

fun setLoop :: "nat \<Rightarrow> string \<Rightarrow> addr \<Rightarrow> addr \<Rightarrow> bool M" where
  "setLoop 0 s val it st = OutOfFuel"
| "setLoop (Suc k) s val it st =
     (case pool st it of
        ConsT entry tail \<Rightarrow>
          (case pool st entry of
             ConsT lhs t \<Rightarrow>
               (case pool st t of
                  ConsT _ _ \<Rightarrow>
                    if pool st lhs = Symbol s then Return True (setHead t val st)
                    else setLoop k s val tail st
                | _ \<Rightarrow> Fault BadVariantAccess)
           | _ \<Rightarrow> setLoop k s val tail st)
      | _ \<Rightarrow> Return False st)"

definition prim_set :: "Ev \<Rightarrow> nat \<Rightarrow> addr \<Rightarrow> addr \<Rightarrow> Result M" where
  "prim_set ev k env e st =
     andThen (args2 e st) (\<lambda>(_, rhs) st.
     andThen (ev env rhs st) (\<lambda>val st.
     andThen (expectSymbol (headOf st e) st) (\<lambda>s st.
     andThen (setLoop k s val env st) (\<lambda>found st.
       if found then ret (unit st) st
       else Throw (PartialEvalError (UnboundSymbol s) (headOf st e)) st))))"

definition prim_begin :: "Ev \<Rightarrow> nat \<Rightarrow> addr \<Rightarrow> addr \<Rightarrow> Result M" where
  "prim_begin ev k env e st =
     andThen (beginList ev k env e st) (\<lambda>b. Return (Some env, b))"

subsection \<open>Applying a primitive\<close>

definition call :: "TreeOps \<Rightarrow> Ev \<Rightarrow> nat \<Rightarrow> PrimFn \<Rightarrow> addr \<Rightarrow> addr \<Rightarrow> Result M" where
  "call X ev k f env e =
     (case f of
        P_lambda \<Rightarrow> prim_lambda env e
      | P_cond \<Rightarrow> prim_cond ev env e
      | P_quote \<Rightarrow> prim_quote ev k env e
      | P_unquote \<Rightarrow> prim_unquote ev env e
      | P_match \<Rightarrow> prim_match ev k env e
      | P_let \<Rightarrow> prim_let ev k env e
      | P_letrec \<Rightarrow> prim_letrec ev k env e
      | P_define \<Rightarrow> prim_define ev env e
      | P_define_macro \<Rightarrow> prim_define_macro ev env e
      | P_set \<Rightarrow> prim_set ev k env e
      | P_begin \<Rightarrow> prim_begin ev k env e
      | P_eval \<Rightarrow> prim_eval env e
      | P_env \<Rightarrow> ret env
      | P_get_syntax \<Rightarrow> prim_get_syntax e
      | P_set_syntax \<Rightarrow> prim_set_syntax k e
      | P_get_global_env \<Rightarrow> (\<lambda>st. ret (globalEnv st) st)
      | P_set_global_env \<Rightarrow> prim_set_global_env e
      | P_nil \<Rightarrow> (\<lambda>st. ret (nil st) st)
      | P_cons \<Rightarrow> prim_cons e
      | P_list \<Rightarrow> ret e
      | P_id \<Rightarrow> prim_id e
      | P_string_symbol \<Rightarrow> prim_string_symbol e
      | P_string_nat64 \<Rightarrow> prim_string_nat64 e
      | P_string_escape \<Rightarrow> prim_string_escape X e
      | P_string_unescape \<Rightarrow> prim_string_unescape X e
      | P_string_length \<Rightarrow> prim_string_length e
      | P_string_char \<Rightarrow> prim_string_char e
      | P_char_string \<Rightarrow> prim_char_string e
      | P_string_concat \<Rightarrow> prim_string_concat e
      | P_string_substr \<Rightarrow> prim_string_substr e
      | P_string_eq \<Rightarrow> prim_string_eq e
      | P_minus \<Rightarrow> prim_minus e
      | P_binary op \<Rightarrow> prim_binary op e
      | P_binpred op btrue bfalse \<Rightarrow> prim_binpred op btrue bfalse e
      | P_not \<Rightarrow> prim_not e
      | P_binary_bool op \<Rightarrow> prim_binary_bool op e
      | P_print \<Rightarrow> prim_print X e
      | P_display \<Rightarrow> prim_display e
      | P_debug_save_file \<Rightarrow> prim_debug_save_file e)"

subsection \<open>\<^verbatim>\<open>eval\<close>\<close>

text \<open>
  The body of the \<^verbatim>\<open>try\<close> block of \<^verbatim>\<open>eval\<close> for a \<^verbatim>\<open>Cons\<close>: the head is evaluated and
  applied. The result asks for a tail call (the \<^verbatim>\<open>continue\<close> statements) or holds the
  value. \<open>invoked\<close> records the primitive just before it runs.
\<close>

definition applyHead :: "TreeOps \<Rightarrow> Ev \<Rightarrow> nat \<Rightarrow> addr \<Rightarrow> addr \<Rightarrow> addr \<Rightarrow> addr \<Rightarrow> Result M" where
  "applyHead X ev k env e head tail st =
     andThen (ev env head st) (\<lambda>ehead st.
       case pool st ehead of
         Prim i \<Rightarrow>
           if length (prims st) \<le> i then Fault IndexOutOfBounds
           else (case prims st ! i of (evalParams, f) \<Rightarrow>
             andThen (if evalParams then evalList ev k env tail st else Return tail st)
               (\<lambda>args st. call X ev k f env args (st\<lparr>invoked := invoked st @ [f]\<rparr>)))
       | Closure cenv formal es \<Rightarrow>
           andThen (evalList ev k env tail st) (\<lambda>params st.
           andThen (match k params formal cenv False st) (\<lambda>(matched, env') st.
             if \<not> matched then Throw (EvalError PatternMatchingFailed tail e) st
             else andThen (beginList ev k env' es st) (\<lambda>b. Return (Some env', b))))
       | _ \<Rightarrow> Throw (EvalError NotAFunction (headOf st e) e) st)"

definition evalStep :: "TreeOps \<Rightarrow> Ev \<Rightarrow> nat \<Rightarrow> addr \<Rightarrow> addr \<Rightarrow> addr M" where
  "evalStep X ev k env e st =
     (case pool st e of
        Symbol s \<Rightarrow>
          (case lookup k st env s of
             None \<Rightarrow> OutOfFuel
           | Some (Some val) \<Rightarrow> Return val st
           | Some None \<Rightarrow>
               (case namePrims st s of
                  Some i \<Rightarrow> alloc (Prim i) st
                | None \<Rightarrow> Throw (PartialEvalError (UnboundSymbol s) e) st))
      | ConsT head tail \<Rightarrow>
          andThen (decorate e (applyHead X ev k env e head tail st)) (\<lambda>(renv, v) st.
            case renv of None \<Rightarrow> Return v st | Some env' \<Rightarrow> ev env' v st)
      | _ \<Rightarrow> Return e st)"

primrec eval :: "TreeOps \<Rightarrow> nat \<Rightarrow> addr \<Rightarrow> addr \<Rightarrow> addr M" where
  "eval X 0 = (\<lambda>env e st. OutOfFuel)"
| "eval X (Suc n) = evalStep X (eval X n) n"

section \<open>The macro expander\<close>

text \<open>
  \<^verbatim>\<open>expand\<close> and \<^verbatim>\<open>expandList\<close>; \<open>n\<close> is the depth given to \<^verbatim>\<open>eval\<close> for a macro body,
  \<open>k\<close> bounds the recursion of the expansion. The handler of \<^verbatim>\<open>expand\<close> decorates with
  the tree \<^verbatim>\<open>e\<close> holds at the throw: the argument while \<^verbatim>\<open>expandList\<close> runs, its result
  afterwards.
\<close>

fun expand :: "TreeOps \<Rightarrow> nat \<Rightarrow> nat \<Rightarrow> addr \<Rightarrow> addr M"
  and expandList :: "TreeOps \<Rightarrow> nat \<Rightarrow> nat \<Rightarrow> addr \<Rightarrow> addr M" where
  "expand X n 0 e st = OutOfFuel"
| "expand X n (Suc k) e st =
     (case pool st e of
        ConsT _ _ \<Rightarrow>
          andThen (decorate e (expandList X n k e st)) (\<lambda>e' st.
            decorate e'
              (case pool st e' of
                 ConsT head tail \<Rightarrow>
                   (case headSymbol st head of
                      Some name \<Rightarrow>
                        (case nameMacros st name of
                           Some i \<Rightarrow>
                             if length (macros st) \<le> i then Fault IndexOutOfBounds
                             else (case macros st ! i of (cenv, formal, es) \<Rightarrow>
                               andThen (match k tail formal cenv False st) (\<lambda>(matched, env) st.
                                 if \<not> matched
                                 then Throw (EvalError PatternMatchingFailed tail e') st
                                 else andThen (beginList (eval X n) k env es st) (eval X n env)))
                         | None \<Rightarrow> Return e' st)
                    | None \<Rightarrow> Return e' st)
               | _ \<Rightarrow> Fault BadVariantAccess))
      | _ \<Rightarrow> Return e st)"
| "expandList X n 0 e st = OutOfFuel"
| "expandList X n (Suc k) e st =
     (case pool st e of
        NilT \<Rightarrow> Return e st
      | ConsT head tail \<Rightarrow>
          andThen (expand X n k head st) (\<lambda>ehead st1.
          andThen (expandList X n k tail st1) (\<lambda>etail st2.
            if ehead = headOf st2 e \<and> etail = tail then Return e st2
            else alloc (ConsT ehead etail) st2))
      | _ \<Rightarrow> expand X n k e st)"

section \<open>Construction\<close>

text \<open>
  Modelled from the spec: \<^verbatim>\<open>addPrimitive\<close> is defined in the header. The primitive
  registry is a sequence of pairs and a map from names to positions (section 3). The
  table lists the calls of the constructor in their order; \<^verbatim>\<open>btrue\<close> and \<^verbatim>\<open>bfalse\<close> are
  the two nodes the constructor allocates first.
\<close>

definition addPrimitive :: "string \<Rightarrow> bool \<times> PrimFn \<Rightarrow> Evaluator \<Rightarrow> Evaluator" where
  "addPrimitive name p st =
     st\<lparr>prims := prims st @ [p], namePrims := (namePrims st)(name \<mapsto> length (prims st))\<rparr>"

definition primitives :: "addr \<Rightarrow> addr \<Rightarrow> (string \<times> bool \<times> PrimFn) list" where
  "primitives btrue bfalse =
     [(''lambda'', False, P_lambda), (''cond'', False, P_cond), (''quote'', False, P_quote),
      (''unquote'', False, P_unquote), (''match'', False, P_match), (''let'', False, P_let),
      (''letrec'', False, P_letrec), (''define'', False, P_define),
      (''define_macro'', False, P_define_macro), (''set'', False, P_set),
      (''begin'', False, P_begin),
      (''eval'', True, P_eval), (''env'', True, P_env), (''get_syntax'', True, P_get_syntax),
      (''set_syntax'', True, P_set_syntax), (''get_global_env'', True, P_get_global_env),
      (''set_global_env'', True, P_set_global_env),
      (''nil'', True, P_nil), (''cons'', True, P_cons), (''list'', True, P_list),
      (''id'', True, P_id),
      (''string_symbol'', True, P_string_symbol), (''string_nat64'', True, P_string_nat64),
      (''string_escape'', True, P_string_escape), (''string_unescape'', True, P_string_unescape),
      (''string_length'', True, P_string_length), (''string_char'', True, P_string_char),
      (''char_string'', True, P_char_string), (''string_concat'', True, P_string_concat),
      (''string_substr'', True, P_string_substr), (''string_eq'', True, P_string_eq),
      (''minus'', True, P_minus),
      (''add'', True, P_binary Add), (''sub'', True, P_binary Sub), (''mul'', True, P_binary Mul),
      (''div'', True, P_binary Div), (''mod'', True, P_binary Mod),
      (''le'', True, P_binpred Le btrue bfalse), (''lt'', True, P_binpred Lt btrue bfalse),
      (''ge'', True, P_binpred Ge btrue bfalse), (''gt'', True, P_binpred Gt btrue bfalse),
      (''eq'', True, P_binpred Eq btrue bfalse), (''neq'', True, P_binpred Neq btrue bfalse),
      (''not'', True, P_not),
      (''and'', True, P_binary_bool And), (''or'', True, P_binary_bool Or),
      (''implies'', True, P_binary_bool Implies), (''iff'', True, P_binary_bool Iff),
      (''print'', True, P_print), (''display'', True, P_display),
      (''debug_save_file'', True, P_debug_save_file)]"

definition registerPrimitives :: "addr \<Rightarrow> addr \<Rightarrow> Evaluator \<Rightarrow> Evaluator" where
  "registerPrimitives btrue bfalse st =
     foldl (\<lambda>st (name, p). addPrimitive name p st) st (primitives btrue bfalse)"

subsection \<open>The default syntax\<close>

text \<open>
  The macros \<^verbatim>\<open>sym\<close>, \<^verbatim>\<open>str\<close>, \<^verbatim>\<open>nat\<close> and \<^verbatim>\<open>list\<close> of the constructor. The elements
  of a braced list are built from left to right, then \<^verbatim>\<open>makeList\<close> conses them from the
  right.
\<close>

type_synonym Build = "Evaluator \<Rightarrow> addr \<times> Evaluator"

definition makeList :: "addr list \<Rightarrow> Build" where
  "makeList es st = foldr (\<lambda>x (res, st). emplaceBack (ConsT x res) st) es (nil st, st)"

fun buildAll :: "Build list \<Rightarrow> Evaluator \<Rightarrow> addr list \<times> Evaluator" where
  "buildAll [] st = ([], st)"
| "buildAll (b # bs) st =
     (case b st of (a, st1) \<Rightarrow> case buildAll bs st1 of (as, st2) \<Rightarrow> (a # as, st2))"

definition listB :: "Build list \<Rightarrow> Build" where
  "listB bs st = (case buildAll bs st of (as, st') \<Rightarrow> makeList as st')"

definition symB :: "string \<Rightarrow> Build" where
  "symB s = emplaceBack (Symbol s)"

definition strB :: "string \<Rightarrow> Build" where
  "strB s = emplaceBack (String s)"

definition natB :: "nat \<Rightarrow> Build" where
  "natB n = emplaceBack (Nat64 (word_of_nat n))"

definition symbolB :: "string \<Rightarrow> Build" where
  "symbolB s = listB [symB s, natB 0]"

definition entryB :: "string \<Rightarrow> Build \<Rightarrow> Build \<Rightarrow> Build" where
  "entryB name lhs rhs = listB [symB name, lhs, rhs]"

definition charsB :: "string \<Rightarrow> Build" where
  "charsB s = listB [symB ''char'', strB s]"

definition exceptB :: "string \<Rightarrow> Build" where
  "exceptB s = listB [symB ''except'', strB s]"

definition rangeB :: "char \<Rightarrow> char \<Rightarrow> Build" where
  "rangeB l u = listB [symB ''range'', natB (of_char l), natB (of_char u)]"

definition wordB :: "string \<Rightarrow> Build" where
  "wordB s = listB [symB ''word'', strB s]"

definition altB :: "Build list \<Rightarrow> Build" where
  "altB ps = listB (symB ''alt'' # ps)"

definition concatB :: "Build list \<Rightarrow> Build" where
  "concatB ps = listB (symB ''concat'' # ps)"

definition starB :: "Build \<Rightarrow> Build" where
  "starB p = listB [symB ''star'', p]"

definition plusB :: "Build \<Rightarrow> Build" where
  "plusB p = listB [symB ''plus'', p]"

definition utf8segB :: Build where
  "utf8segB = listB [symB ''utf8seg'']"

definition defaultPatterns :: Build where
  "defaultPatterns =
     listB
      [entryB ''_'' (symbolB ''_'')
         (starB (charsB [CHR 0x20, CHR 0x0C, CHR 0x0A, CHR 0x0D, CHR 0x09, CHR 0x0B])),
       entryB ''_'' (symbolB ''_'')
         (concatB [wordB ''//'', starB (exceptB [CHR 0x0A, CHR 0x0D])]),
       entryB ''_'' (symbolB ''_'')
         (concatB [wordB ''/*'',
                   starB (concatB [starB (exceptB ''*''), plusB (charsB ''*''), exceptB ''/'']),
                   starB (exceptB ''*''),
                   plusB (charsB ''*''),
                   charsB ''/'']),
       entryB [CHR ''s'', CHR ''y'', CHR ''m'', CHR ''b'', CHR ''o'', CHR ''l'', CHR 0x27]
         (symbolB ''tree'')
         (concatB
            [altB [rangeB (CHR ''a'') (CHR ''z''), rangeB (CHR ''A'') (CHR ''Z''),
                   charsB [CHR ''_'', CHR 0x27], utf8segB],
             starB (altB [rangeB (CHR ''a'') (CHR ''z''), rangeB (CHR ''A'') (CHR ''Z''),
                          rangeB (CHR ''0'') (CHR ''9''), charsB [CHR ''_'', CHR 0x27],
                          utf8segB])]),
       entryB [CHR ''n'', CHR ''a'', CHR ''t'', CHR ''6'', CHR ''4'', CHR 0x27]
         (symbolB ''tree'')
         (altB [plusB (rangeB (CHR ''0'') (CHR ''9'')),
                concatB [charsB ''0'', charsB ''xX'',
                         plusB (altB [rangeB (CHR ''0'') (CHR ''9''),
                                      rangeB (CHR ''a'') (CHR ''f''),
                                      rangeB (CHR ''A'') (CHR ''F'')])]]),
       entryB [CHR ''s'', CHR ''t'', CHR ''r'', CHR ''i'', CHR ''n'', CHR ''g'', CHR 0x27]
         (symbolB ''tree'')
         (concatB [charsB [CHR 0x22],
                   starB (altB [exceptB [CHR 0x5C, CHR 0x22],
                                concatB [charsB [CHR 0x5C],
                                         charsB [CHR 0x5C, CHR 0x22, CHR ''a'', CHR ''b'',
                                                 CHR ''f'', CHR ''n'', CHR ''r'', CHR ''t'',
                                                 CHR ''v'']]]),
                   charsB [CHR 0x22]]),
       entryB ''_'' (symbolB ''left_paren'') (wordB ''(''),
       entryB ''_'' (symbolB ''right_paren'') (wordB '')''),
       entryB ''_'' (symbolB ''period'') (wordB ''.''),
       entryB ''_'' (symbolB ''quote'') (wordB [CHR 0x60]),
       entryB ''_'' (symbolB ''comma'') (wordB '','')]"

definition defaultRules :: Build where
  "defaultRules =
     listB
      [entryB [CHR ''n'', CHR ''i'', CHR ''l'', CHR 0x27] (symbolB ''list'') (listB []),
       entryB [CHR ''c'', CHR ''o'', CHR ''n'', CHR ''s'', CHR 0x27] (symbolB ''list'')
         (listB [symbolB ''tree'', symbolB ''list'']),
       entryB [CHR ''p'', CHR ''e'', CHR ''r'', CHR ''i'', CHR ''o'', CHR ''d'', CHR 0x27]
         (symbolB ''list'')
         (listB [symbolB ''tree'', symbolB ''period'', symbolB ''tree'']),
       entryB [CHR ''q'', CHR ''u'', CHR ''o'', CHR ''t'', CHR ''e'', CHR 0x27]
         (symbolB ''tree'')
         (listB [symbolB ''quote'', symbolB ''tree'']),
       entryB [CHR ''u'', CHR ''n'', CHR ''q'', CHR ''u'', CHR ''o'', CHR ''t'', CHR ''e'',
               CHR 0x27]
         (symbolB ''tree'')
         (listB [symbolB ''comma'', symbolB ''tree'']),
       entryB [CHR ''t'', CHR ''r'', CHR ''e'', CHR ''e'', CHR 0x27] (symbolB ''tree'')
         (listB [symbolB ''left_paren'', symbolB ''list'', symbolB ''right_paren'']),
       entryB [CHR ''i'', CHR ''d'', CHR 0x27] (symbolB ''_'') (listB [symbolB ''tree''])]"

text \<open>
  A default macro \<^verbatim>\<open>Closure{ globalEnv, formal, es }\<close>: the two lists are built, the
  closure is stored in the registry by value.
\<close>

definition macroB :: "string \<Rightarrow> Build \<Rightarrow> Build \<Rightarrow> Evaluator \<Rightarrow> Evaluator" where
  "macroB name formal es st =
     (case formal st of (f, st1) \<Rightarrow>
      case es st1 of (b, st2) \<Rightarrow> addMacro name (globalEnv st2, f, b) st2)"

definition defaultMacros :: "Evaluator \<Rightarrow> Evaluator" where
  "defaultMacros st =
     foldl (\<lambda>st (name, formal, es). macroB name formal es st) st
      [([CHR ''s'', CHR ''y'', CHR ''m'', CHR ''b'', CHR ''o'', CHR ''l'', CHR 0x27],
          listB [symB ''s''], listB [listB [symB ''string_symbol'', symB ''s'']]),
       ([CHR ''n'', CHR ''a'', CHR ''t'', CHR ''6'', CHR ''4'', CHR 0x27],
          listB [symB ''n''], listB [listB [symB ''string_nat64'', symB ''n'']]),
       ([CHR ''s'', CHR ''t'', CHR ''r'', CHR ''i'', CHR ''n'', CHR ''g'', CHR 0x27],
          listB [symB ''s''],
          listB [listB [symB ''string_unescape'',
                        listB [symB ''string_substr'', symB ''s'', natB 1,
                               listB [symB ''sub'', listB [symB ''string_length'', symB ''s''],
                                      natB 2]]]]),
       ([CHR ''n'', CHR ''i'', CHR ''l'', CHR 0x27], listB [], listB [listB [symB ''nil'']]),
       ([CHR ''c'', CHR ''o'', CHR ''n'', CHR ''s'', CHR 0x27],
          listB [symB ''l'', symB ''r''], listB [listB [symB ''cons'', symB ''l'', symB ''r'']]),
       ([CHR ''i'', CHR ''d'', CHR 0x27], listB [symB ''l''], listB [symB ''l'']),
       ([CHR ''p'', CHR ''e'', CHR ''r'', CHR ''i'', CHR ''o'', CHR ''d'', CHR 0x27],
          listB [symB ''l'', symB ''_'', symB ''r''],
          listB [listB [symB ''cons'', symB ''l'', symB ''r'']]),
       ([CHR ''q'', CHR ''u'', CHR ''o'', CHR ''t'', CHR ''e'', CHR 0x27],
          listB [symB ''_'', symB ''l''],
          listB [listB [symB ''list'', listB [symB ''string_symbol'', strB ''quote''],
                        symB ''l'']]),
       ([CHR ''u'', CHR ''n'', CHR ''q'', CHR ''u'', CHR ''o'', CHR ''t'', CHR ''e'', CHR 0x27],
          listB [symB ''_'', symB ''l''],
          listB [listB [symB ''list'', listB [symB ''string_symbol'', strB ''unquote''],
                        symB ''l'']]),
       ([CHR ''t'', CHR ''r'', CHR ''e'', CHR ''e'', CHR 0x27],
          listB [symB ''_'', symB ''l'', symB ''_''], listB [symB ''l''])]"

text \<open>
  The constructor: the members, the two truth values, the default syntax installed by
  \<^verbatim>\<open>setSyntax\<close>, the default macros, the primitives. \<open>k\<close> bounds the loops of
  \<^verbatim>\<open>setSyntax\<close>.
\<close>

definition construct :: "nat \<Rightarrow> Evaluator outcome" where
  "construct k =
     (case emplaceBack (Bool True) initMembers of (btrue, st1) \<Rightarrow>
      case emplaceBack (Bool False) st1 of (bfalse, st2) \<Rightarrow>
      case defaultPatterns st2 of (p, st3) \<Rightarrow>
      case defaultRules st3 of (r, st4) \<Rightarrow>
        andThen (setSyntax k p r st4) (\<lambda>_ st5.
          Return (registerPrimitives btrue bfalse (defaultMacros st5))
                 (registerPrimitives btrue bfalse (defaultMacros st5))))"

section \<open>The parse forest resolver\<close>

text \<open>
  \<^verbatim>\<open>resolve(loc, right, maxDepth)\<close> walks the forest the parser has left; \<open>k\<close> bounds
  the recursion of the model (the program relies on the forest for the walk to the left
  to end). An index outside a vector is a fault. A child link is \<open>None\<close> for
  \<^verbatim>\<open>EarleyParser::Leaf\<close>.
\<close>

fun ruleNodes :: "string \<Rightarrow> addr list \<Rightarrow> Evaluator \<Rightarrow> addr list \<times> Evaluator" where
  "ruleNodes name [] st = ([], st)"
| "ruleNodes name (r # rs) st =
     (case emplaceBack (Symbol name) st of (s, st1) \<Rightarrow>
      case emplaceBack (ConsT s r) st1 of (c, st2) \<Rightarrow>
      case ruleNodes name rs st2 of (cs, st3) \<Rightarrow> (c # cs, st3))"

definition leafNode :: "string \<Rightarrow> string \<Rightarrow> Build" where
  "leafNode name lx st =
     (case emplaceBack (Symbol name) st of (s, st1) \<Rightarrow>
      case emplaceBack (String lx) st1 of (l, st2) \<Rightarrow>
      case emplaceBack (ConsT l (nil st2)) st2 of (t, st3) \<Rightarrow>
      emplaceBack (ConsT s t) st3)"

fun consOnto :: "addr \<Rightarrow> addr list \<Rightarrow> Evaluator \<Rightarrow> addr list \<times> Evaluator" where
  "consOnto c [] st = ([], st)"
| "consOnto c (r # rs) st =
     (case emplaceBack (ConsT c r) st of (x, st1) \<Rightarrow>
      case consOnto c rs st1 of (xs, st2) \<Rightarrow> (x # xs, st2))"

fun consProduct :: "addr list \<Rightarrow> addr list \<Rightarrow> Evaluator \<Rightarrow> addr list \<times> Evaluator" where
  "consProduct [] right st = ([], st)"
| "consProduct (c # cs) right st =
     (case consOnto c right st of (xs, st1) \<Rightarrow>
      case consProduct cs right st1 of (ys, st2) \<Rightarrow> (xs @ ys, st2))"

definition tokenLeaf :: "nat \<Rightarrow> addr list M" where
  "tokenLeaf pos st =
     (if pos = 0 \<or> length (sentence (parser st)) \<le> pos - 1 then Fault IndexOutOfBounds
      else let tok = sentence (parser st) ! (pos - 1)
           in if length (patternNames st) \<le> pattern tok then Fault IndexOutOfBounds
              else (case leafNode (patternNames st ! pattern tok) (lexeme tok) st of
                      (c, st') \<Rightarrow> Return [c] st'))"

fun resolveLoc :: "nat \<Rightarrow> Location \<Rightarrow> addr list \<Rightarrow> nat \<Rightarrow> addr list M"
  and resolveLinks :: "nat \<Rightarrow> Location \<Rightarrow> Links \<Rightarrow> addr list \<Rightarrow> nat \<Rightarrow> addr list M" where
  "resolveLoc 0 loc right maxDepth st = OutOfFuel"
| "resolveLoc (Suc k) loc right maxDepth st =
     (if maxDepth = 0 then Return [] st
      else if length (forest (parser st)) \<le> fst loc then Fault IndexOutOfBounds
      else if length (forest (parser st) ! fst loc) \<le> snd loc then Fault IndexOutOfBounds
      else (case forest (parser st) ! fst loc ! snd loc of (state, links) \<Rightarrow>
        if progress state = 0
        then (if right = [] then Return [] st
              else if length (ruleNames st) \<le> rule state then Fault IndexOutOfBounds
              else (case ruleNodes (ruleNames st ! rule state) right st of
                      (res, st') \<Rightarrow> Return res st'))
        else resolveLinks k loc links right maxDepth st))"
| "resolveLinks 0 loc links right maxDepth st = OutOfFuel"
| "resolveLinks (Suc k) loc [] right maxDepth st = Return [] st"
| "resolveLinks (Suc k) loc ((prevLink, childLink) # links) right maxDepth st =
     andThen (case childLink of
                None \<Rightarrow> tokenLeaf (fst loc) st
              | Some c \<Rightarrow> resolveLoc k c [nil st] (maxDepth - 1) st) (\<lambda>child st.
       case consProduct child right st of (cur, st) \<Rightarrow>
         andThen (resolveLoc k prevLink cur maxDepth st) (\<lambda>final st.
         andThen (resolveLinks k loc links right maxDepth st) (\<lambda>rest.
           Return (final @ rest))))"

text \<open>
  The top level: every item at the end of the sentence that completes a rule of the
  start symbol from position 0 is resolved, and the trees are collected in \<^verbatim>\<open>all\<close>.
  \<^verbatim>\<open>notimplemented\<close> ends both the empty and the ambiguous case; the ambiguous case first
  writes every candidate to \<^verbatim>\<open>std::cout\<close>.
\<close>

definition completedStart :: "Evaluator \<Rightarrow> State \<Rightarrow> bool option" where
  "completedStart st state =
     (if length (parserRules (parser st)) \<le> rule state then None
      else (case parserRules (parser st) ! rule state of (lhs, rhs) \<Rightarrow>
        Some (stateStartPos state = 0 \<and> fst lhs = StartSymbol \<and> progress state = length rhs)))"

fun resolveItems :: "nat \<Rightarrow> nat \<Rightarrow> nat \<Rightarrow> nat list \<Rightarrow> addr list M" where
  "resolveItems k pos maxDepth [] st = Return [] st"
| "resolveItems k pos maxDepth (i # is) st =
     (case completedStart st (fst (forest (parser st) ! pos ! i)) of
        None \<Rightarrow> Fault IndexOutOfBounds
      | Some c \<Rightarrow>
          andThen (if c then resolveLoc k (pos, i) [nil st] maxDepth st else Return [] st)
            (\<lambda>final st.
          andThen (resolveItems k pos maxDepth is st) (\<lambda>rest. Return (final @ rest))))"

definition resolve :: "TreeOps \<Rightarrow> nat \<Rightarrow> nat \<Rightarrow> addr M" where
  "resolve X k maxDepth st =
     (let pos = length (sentence (parser st))
      in if length (forest (parser st)) \<le> pos then Throw Unreachable st
         else andThen (resolveItems k pos maxDepth [0..<length (forest (parser st) ! pos)] st)
           (\<lambda>all st.
             if all = [] then Throw NotImplemented st
             else if 1 < length all
             then Throw NotImplemented (st\<lparr>cout := cout st @ map (toString X (pool st)) all\<rparr>)
             else Return (all ! 0) st))"

section \<open>A statement\<close>

text \<open>
  \<^verbatim>\<open>evalParsedStatement\<close>: resolve, expand, print the expanded tree, evaluate in the global
  environment. The default of \<^verbatim>\<open>maxDepth\<close> is declared in the header; it is a parameter.
\<close>

definition evalParsedStatement :: "TreeOps \<Rightarrow> nat \<Rightarrow> nat \<Rightarrow> addr M" where
  "evalParsedStatement X n maxDepth st =
     andThen (resolve X n maxDepth st) (\<lambda>e st.
     andThen (expand X n n e st) (\<lambda>e st.
       eval X n (globalEnv st) e (st\<lparr>cout := cout st @ [toString X (pool st) e]\<rparr>)))"

section \<open>Notions used to state the properties\<close>

text \<open>
  \<open>noUnquote d st e\<close>: the tree at \<open>e\<close> is finite, of depth below \<open>d\<close> along heads and
  tails, and no \<^verbatim>\<open>Cons\<close> in it has the symbol \<^verbatim>\<open>unquote\<close> as its head. These are the
  nodes \<^verbatim>\<open>quasiquote\<close> visits.
\<close>

fun noUnquote :: "nat \<Rightarrow> Evaluator \<Rightarrow> addr \<Rightarrow> bool" where
  "noUnquote 0 st e = False"
| "noUnquote (Suc d) st e =
     (case pool st e of
        ConsT h t \<Rightarrow> pool st h \<noteq> Symbol ''unquote'' \<and> noUnquote d st h \<and> noUnquote d st t
      | _ \<Rightarrow> True)"

definition selfEvaluating :: "Tree \<Rightarrow> bool" where
  "selfEvaluating x = (case x of Symbol _ \<Rightarrow> False | ConsT _ _ \<Rightarrow> False | _ \<Rightarrow> True)"





text \<open>Trees and parameters for concrete runs.\<close>

definition plainOps :: TreeOps where
  "plainOps = \<lparr> toString = (\<lambda>p a. []), escapeString = (\<lambda>s. s), unescapeString = Inr \<rparr>"

definition quotedPattern :: "addr \<times> Evaluator" where
  "quotedPattern = store (TList [TSym ''quote'', TList [TSym ''unquote'', TSym ''x'']]) initMembers"

text \<open>
  The evaluator as the constructor leaves it, without the default syntax and macros:
  the members, the two truth values, the primitives. The concrete runs below evaluate
  trees directly and consult neither the grammar nor the macros.
\<close>

definition bareEvaluator :: Evaluator where
  "bareEvaluator =
     (case emplaceBack (Bool True) initMembers of (btrue, st1) \<Rightarrow>
      case emplaceBack (Bool False) st1 of (bfalse, st2) \<Rightarrow>
        registerPrimitives btrue bfalse st2)"

definition program :: "Term \<Rightarrow> addr \<times> Evaluator" where
  "program t = store t bareEvaluator"

definition condProgram :: "addr \<times> Evaluator" where
  "condProgram = program (TList [TSym ''cond'', TList [TSym ''eq'', TNat 1, TNat 2], TNat 5])"


text \<open>
  Notions for the resolver. \<open>onlyAllocates st st'\<close>: the two states differ in the arena
  only. \<open>completedStartItems\<close> lists the items at the end of the sentence that complete a
  rule of the start symbol from position 0; \<open>materialize\<close> resolves the listed items one
  after the other and collects their trees; \<open>resultPolicy\<close> is the result policy of
  section 4.3, with \<^verbatim>\<open>notimplemented\<close> as the fatal error and \<^verbatim>\<open>std::cout\<close> as the
  place the candidates go to.
\<close>

definition onlyAllocates :: "Evaluator \<Rightarrow> Evaluator \<Rightarrow> bool" where
  "onlyAllocates st st' = (st' = st\<lparr>pool := pool st', poolSize := poolSize st'\<rparr>)"

fun materialize :: "nat \<Rightarrow> nat \<Rightarrow> nat \<Rightarrow> nat list \<Rightarrow> addr list M" where
  "materialize k pos maxDepth [] st = Return [] st"
| "materialize k pos maxDepth (i # is) st =
     andThen (resolveLoc k (pos, i) [nil st] maxDepth st) (\<lambda>final st.
     andThen (materialize k pos maxDepth is st) (\<lambda>rest. Return (final @ rest)))"

definition completedStartItems :: "Evaluator \<Rightarrow> nat \<Rightarrow> nat list" where
  "completedStartItems st pos =
     filter (\<lambda>i. completedStart st (fst (forest (parser st) ! pos ! i)) = Some True)
       [0..<length (forest (parser st) ! pos)]"

definition resultPolicy :: "TreeOps \<Rightarrow> addr list outcome \<Rightarrow> addr outcome" where
  "resultPolicy X r =
     (case r of
        Return all st \<Rightarrow>
          (case all of
             [] \<Rightarrow> Throw NotImplemented st
           | [t] \<Rightarrow> Return t st
           | _ \<Rightarrow> Throw NotImplemented (st\<lparr>cout := cout st @ map (toString X (pool st)) all\<rparr>))
      | Throw e st \<Rightarrow> Throw e st
      | Fault f \<Rightarrow> Fault f
      | OutOfFuel \<Rightarrow> OutOfFuel)"


text \<open>
  Three parser states on the bare evaluator, for the grammar with the one rule \<^verbatim>\<open>r\<close> of
  the start symbol with an empty right side, after the empty sentence: no completed
  item, one, and the same item twice.
\<close>

definition parsed :: "(State \<times> Links) list \<Rightarrow> Evaluator" where
  "parsed items =
     bareEvaluator\<lparr>ruleNames := [''r''],
                   parser := \<lparr> ignoredSymbol = IgnoredSymbol, startSymbol = StartSymbol,
                              parserPatterns = [], parserRules = [((StartSymbol, 0), [])],
                              sentence = [], forest = [items] \<rparr>\<rparr>"

definition emptyRule :: "State \<times> Links" where
  "emptyRule = (\<lparr> stateStartPos = 0, rule = 0, progress = 0 \<rparr>, [])"


section \<open>Properties of environments\<close>

lemma closed_kids:
  "closed st \<Longrightarrow> a < poolSize st \<Longrightarrow> c \<in> set (kids (pool st a)) \<Longrightarrow> c < poolSize st"
  by (simp add: closed_def list_all_iff)

lemma lookup_agree:
  "closed st \<Longrightarrow> agree st st' \<Longrightarrow> it < poolSize st \<Longrightarrow> lookup k st' it s = lookup k st it s"
proof (induction k arbitrary: it)
  case 0
  show ?case by simp
next
  case (Suc k)
  have same: "\<And>a. a < poolSize st \<Longrightarrow> pool st' a = pool st a"
    using Suc.prems(2) by (simp add: agree_def)
  have kid: "\<And>a c. a < poolSize st \<Longrightarrow> c \<in> set (kids (pool st a)) \<Longrightarrow> c < poolSize st"
    using Suc.prems(1) by (rule closed_kids)
  show ?case
  proof (cases "pool st it")
    case (ConsT entry tail)
    with kid [OF Suc.prems(3)] have c: "entry < poolSize st" and t: "tail < poolSize st"
      by simp_all
    have rest: "lookup k st' tail s = lookup k st tail s"
      using Suc.IH [OF Suc.prems(1,2) t] .
    show ?thesis
    proof (cases "pool st entry")
      case inner: (ConsT lhs t2)
      with kid [OF c] have l: "lhs < poolSize st" and t2: "t2 < poolSize st"
        by simp_all
      show ?thesis
      proof (cases "pool st t2")
        case cell: (ConsT rhs x)
        with kid [OF t2] have r: "rhs < poolSize st"
          by simp
        show ?thesis
          using ConsT inner cell rest
          by (simp add: same Suc.prems(3) c l t2 r)
      qed (use ConsT inner rest in \<open>simp_all add: same Suc.prems(3) c t2\<close>)
    qed (use ConsT rest in \<open>simp_all add: same Suc.prems(3) c\<close>)
  qed (simp_all add: same Suc.prems(3))
qed

lemma extend_agree:
  "extend env s e st = (env', st') \<Longrightarrow> agree st st'"
  by (auto simp: extend_def emplaceBack_def agree_def)

text \<open>
  C7 (as amended). A lookup of \<open>s\<close> right after \<^verbatim>\<open>extend(env, s, v)\<close> finds \<open>v\<close>, except
  that a binding to \<^verbatim>\<open>Unit\<close> reads as unbound (\<^verbatim>\<open>nullptr\<close>); a lookup of another symbol
  passes over the new entry and gives what it gave in \<open>env\<close>.
\<close>

theorem lookup_extend:
  assumes "closed st" and "env < poolSize st" and "v < poolSize st"
    and "extend env s' v st = (env', st')"
  shows "lookup (Suc k) st' env' s =
           (if s = s' then Some (if pool st v = Unit then None else Some v)
            else lookup k st env s)"
proof -
  have ag: "agree st st'"
    using assms(4) by (rule extend_agree)
  have old: "lookup k st' env s = lookup k st env s"
    using assms(1) ag assms(2) by (rule lookup_agree)
  have step: "lookup (Suc k) st' env' s =
           (if s = s' then Some (if pool st' v = Unit then None else Some v)
            else lookup k st' env s)"
    using assms(4) by (auto simp: extend_def emplaceBack_def)
  have "pool st' v = pool st v"
    using ag assms(3) by (simp add: agree_def)
  with step old show ?thesis by simp
qed

lemma closed_initMembers: "closed initMembers"
  by (simp add: closed_def initMembers_def upt_rec)

theorem lookup_extend_witness:
  "closed initMembers \<and> 0 < poolSize initMembers \<and>
   lookup (Suc 0) (snd (extend 0 ''x'' 0 initMembers)) (fst (extend 0 ''x'' 0 initMembers)) ''x''
     = Some (Some 0) \<and>
   lookup (Suc (Suc 0)) (snd (extend 0 ''y'' 0 initMembers)) (fst (extend 0 ''y'' 0 initMembers)) ''x''
     = Some None"
proof -
  have sz: "0 < poolSize initMembers"
    by (simp add: initMembers_def)
  have x: "extend 0 ''x'' 0 initMembers =
      (fst (extend 0 ''x'' 0 initMembers), snd (extend 0 ''x'' 0 initMembers))"
    by simp
  have y: "extend 0 ''y'' 0 initMembers =
      (fst (extend 0 ''y'' 0 initMembers), snd (extend 0 ''y'' 0 initMembers))"
    by simp
  show ?thesis
    using lookup_extend [OF closed_initMembers sz sz x, of 0 "''x''"]
      lookup_extend [OF closed_initMembers sz sz y, of "Suc 0" "''x''"]
      closed_initMembers
    by (simp add: initMembers_def)
qed

text \<open>
  C7 as stated fails for \<open>v = Unit\<close>: \<^verbatim>\<open>lookup\<close> answers \<^verbatim>\<open>nullptr\<close> for the symbol just
  bound to the \<^verbatim>\<open>unit\<close> node (address 1 of the fresh evaluator), not that node.
\<close>

theorem lookup_extend_unit_counterexample:
  "pool initMembers 1 = Unit \<and>
   lookup (Suc 0) (snd (extend 0 ''x'' 1 initMembers)) (fst (extend 0 ''x'' 1 initMembers)) ''x''
     = Some None"
  by (simp add: extend_def emplaceBack_def initMembers_def)

section \<open>Properties of the primitive procedures\<close>

lemma neg_word64: "- (n :: 64 word) = word_of_nat ((2 ^ 64 - unat n) mod 2 ^ 64)"
proof -
  have le: "unat n \<le> 2 ^ 64"
    using unsigned_less [of n, where 'a = nat] by simp
  have "(word_of_nat ((2 ^ 64 - unat n) mod 2 ^ 64) :: 64 word) = word_of_nat (2 ^ 64 - unat n)"
    by (simp add: word_of_nat_eq_iff take_bit_eq_mod)
  also have "\<dots> = word_of_nat (2 ^ 64) - word_of_nat (unat n)"
    using le by (simp only: of_nat_diff)
  also have "\<dots> = - n"
    by simp
  finally show ?thesis by simp
qed

text \<open>
  C10. Unary \<^verbatim>\<open>minus\<close> on \<^verbatim>\<open>Nat64 n\<close> returns a fresh \<^verbatim>\<open>Nat64\<close> node holding
  \<open>(2\<^sup>6\<^sup>4 - n) mod 2\<^sup>6\<^sup>4\<close>: negation wraps, it never fails on a number, and on 0 it
  gives 0.
\<close>

theorem minus_wraps:
  assumes "pool st e = ConsT lhs x" and "pool st lhs = Nat64 n"
  shows "prim_minus e st =
           Return (None, poolSize st)
             (snd (emplaceBack (Nat64 (word_of_nat ((2 ^ 64 - unat n) mod 2 ^ 64))) st))"
proof -
  have "prim_minus e st = Return (None, poolSize st) (snd (emplaceBack (Nat64 (- n)) st))"
    using assms
    by (simp add: prim_minus_def args1_def expectCons_def expectNat64_def andThen_def alloc_def
        ret_def emplaceBack_def)
  then show ?thesis
    unfolding neg_word64 [symmetric] .
qed

theorem minus_wraps_witness:
  "pool (snd (oneArg (TNat 0))) (fst (oneArg (TNat 0))) = ConsT 2 0 \<and>
   pool (snd (oneArg (TNat 0))) 2 = Nat64 0 \<and>
   prim_minus (fst (oneArg (TNat 0))) (snd (oneArg (TNat 0)))
     = Return (None, 4) (snd (emplaceBack (Nat64 0) (snd (oneArg (TNat 0)))))"
proof -
  have h1: "pool (snd (oneArg (TNat 0))) (fst (oneArg (TNat 0))) = ConsT 2 0"
    by (simp add: oneArg_def TList_def emplaceBack_def initMembers_def)
  have h2: "pool (snd (oneArg (TNat 0))) 2 = Nat64 0"
    by (simp add: oneArg_def TList_def emplaceBack_def initMembers_def)
  have sz: "poolSize (snd (oneArg (TNat 0))) = 4"
    by (simp add: oneArg_def TList_def emplaceBack_def initMembers_def)
  show ?thesis
    using minus_wraps [OF h1 h2] h1 h2 by (simp add: sz)
qed

text \<open>
  C8. \<^verbatim>\<open>div\<close> and \<^verbatim>\<open>mod\<close> divide their two \<^verbatim>\<open>Nat64\<close> arguments with no check of
  the divisor: with a divisor other than 0 they return the quotient or the remainder, and
  with 0 the division itself is executed, which C++ leaves undefined; no error is thrown.
\<close>

theorem div_mod_unguarded:
  assumes "pool st e = ConsT lhs t" and "pool st t = ConsT rhs x"
    and "pool st lhs = Nat64 a" and "pool st rhs = Nat64 b"
  shows "prim_binary Div e st =
           (if b = 0 then Fault DivisionByZero
            else Return (None, poolSize st) (snd (emplaceBack (Nat64 (a div b)) st))) \<and>
         prim_binary Mod e st =
           (if b = 0 then Fault DivisionByZero
            else Return (None, poolSize st) (snd (emplaceBack (Nat64 (a mod b)) st)))"
  using assms
  by (simp add: prim_binary_def args2_def expectCons_def expectNat64_def andThen_def alloc_def
      ret_def emplaceBack_def natOp_def)


theorem div_mod_unguarded_witness:
  "prim_binary Div (fst (twoArgs (TNat 7) (TNat 2))) (snd (twoArgs (TNat 7) (TNat 2)))
     = Return (None, 6) (snd (emplaceBack (Nat64 3) (snd (twoArgs (TNat 7) (TNat 2))))) \<and>
   prim_binary Mod (fst (twoArgs (TNat 7) (TNat 2))) (snd (twoArgs (TNat 7) (TNat 2)))
     = Return (None, 6) (snd (emplaceBack (Nat64 1) (snd (twoArgs (TNat 7) (TNat 2))))) \<and>
   prim_binary Div (fst (twoArgs (TNat 7) (TNat 0))) (snd (twoArgs (TNat 7) (TNat 0)))
     = Fault DivisionByZero \<and>
   prim_binary Mod (fst (twoArgs (TNat 7) (TNat 0))) (snd (twoArgs (TNat 7) (TNat 0)))
     = Fault DivisionByZero"
proof -
  have a: "pool (snd (twoArgs (TNat 7) (TNat n))) (fst (twoArgs (TNat 7) (TNat n))) = ConsT 2 4"
    "pool (snd (twoArgs (TNat 7) (TNat n))) 4 = ConsT 3 0"
    "pool (snd (twoArgs (TNat 7) (TNat n))) 2 = Nat64 7"
    "pool (snd (twoArgs (TNat 7) (TNat n))) 3 = Nat64 n"
    "poolSize (snd (twoArgs (TNat 7) (TNat n))) = 6" for n
    by (simp_all add: twoArgs_def TList_def emplaceBack_def initMembers_def)
  have d: "(7 :: 64 word) div 2 = 3" "(7 :: 64 word) mod 2 = 1"
    by (simp_all add: word_div_def word_mod_def)
  show ?thesis
    using div_mod_unguarded [OF a(1,2,3,4), of 2] div_mod_unguarded [OF a(1,2,3,4), of 0]
    by (simp add: a(5) d)
qed

lemma digit_not_space: "isDigitOf b c \<Longrightarrow> \<not> isspace c"
  by (auto simp: isDigitOf_def digitValue_def isspace_def Let_def split: if_splits)

lemma digit_not_sign: "isDigitOf b c \<Longrightarrow> c \<noteq> CHR ''-'' \<and> c \<noteq> CHR ''+''"
  by (auto simp: isDigitOf_def digitValue_def Let_def)














section \<open>Properties of the pattern matcher\<close>

text \<open>
  C6. Matching a value against the pattern \<^verbatim>\<open>(quote (unquote pat))\<close> in normal mode is
  matching it against \<^verbatim>\<open>pat\<close> in normal mode: same flag, same bindings, same arena. The
  two steps through \<^verbatim>\<open>quote\<close> and \<^verbatim>\<open>unquote\<close> cost two levels of the recursion bound;
  whatever follows the two list elements is ignored.
\<close>

theorem match_quote_unquote:
  assumes "pool st q = ConsT hq tq" and "pool st hq = Symbol ''quote''"
    and "pool st tq = ConsT u x"
    and "pool st u = ConsT hu tu" and "pool st hu = Symbol ''unquote''"
    and "pool st tu = ConsT pat y"
  shows "match (Suc (Suc k)) e q env False st = match k e pat env False st"
  using assms
  by (simp add: headSymbol_def expectCons_def andThen_def)


theorem match_quote_unquote_witness:
  "match (Suc (Suc (Suc 0))) 0 (fst quotedPattern) 0 False (snd quotedPattern)
     = Return (True, 12) (snd (extend 0 ''x'' 0 (snd quotedPattern))) \<and>
   match (Suc 0) 0 4 0 False (snd quotedPattern)
     = Return (True, 12) (snd (extend 0 ''x'' 0 (snd quotedPattern)))"
proof -
  have p: "pool (snd quotedPattern) (fst quotedPattern) = ConsT 2 7"
    "pool (snd quotedPattern) 2 = Symbol ''quote''"
    "pool (snd quotedPattern) 7 = ConsT 6 0"
    "pool (snd quotedPattern) 6 = ConsT 3 5"
    "pool (snd quotedPattern) 3 = Symbol ''unquote''"
    "pool (snd quotedPattern) 5 = ConsT 4 0"
    by (simp_all add: quotedPattern_def TList_def emplaceBack_def initMembers_def)
  have x: "pool (snd quotedPattern) 4 = Symbol ''x''" "poolSize (snd quotedPattern) = 9"
    by (simp_all add: quotedPattern_def TList_def emplaceBack_def initMembers_def)
  have "match (Suc 0) 0 4 0 False (snd quotedPattern)
     = Return (True, 12) (snd (extend 0 ''x'' 0 (snd quotedPattern)))"
    by (simp add: x extend_def emplaceBack_def)
  with match_quote_unquote [OF p, of "Suc 0" 0 0] show ?thesis
    by simp
qed

section \<open>Facts about the bare evaluator\<close>

lemma bare_members:
  "nil bareEvaluator = 0" "unit bareEvaluator = 1" "poolSize bareEvaluator = 4"
  "globalEnv bareEvaluator = 0" "macros bareEvaluator = []" "invoked bareEvaluator = []"
  "nameMacros bareEvaluator = Map.empty" "length (prims bareEvaluator) = 51"
  "pool bareEvaluator 0 = NilT" "pool bareEvaluator 1 = Unit" "pool bareEvaluator (Suc 0) = Unit"
  "pool bareEvaluator 2 = Bool True" "pool bareEvaluator 3 = Bool False"
  by (simp_all add: bareEvaluator_def registerPrimitives_def primitives_def addPrimitive_def
      emplaceBack_def initMembers_def)

lemma bare_prims:
  "prims bareEvaluator = map snd (primitives 2 3)"
  by (simp add: bareEvaluator_def registerPrimitives_def primitives_def addPrimitive_def
      emplaceBack_def initMembers_def)

lemma bare_names:
  "namePrims bareEvaluator ''cond'' = Some 1"
  "namePrims bareEvaluator ''eq'' = Some 41"
  "namePrims bareEvaluator ''x'' = None"
  by (simp_all add: bareEvaluator_def registerPrimitives_def primitives_def addPrimitive_def
      emplaceBack_def initMembers_def)

lemmas run_simps = eval_nat_numeral evalStep_def applyHead_def call_def andThen_def decorate_def
  alloc_def emplaceBack_def ret_def args1_def args2_def expectCons_def expectNat64_def
  expectBool_def expectNil_def holdsCons_def headOf_def beginList_def
  program_def TList_def bare_members bare_prims bare_names primitives_def


section \<open>Properties of the evaluator\<close>

lemma quasiquote_id: "noUnquote d st e \<Longrightarrow> quasiquote ev d env e st = Return e st"
proof (induction d arbitrary: e)
  case 0
  then show ?case by simp
next
  case (Suc d)
  show ?case
  proof (cases "pool st e")
    case (ConsT h t)
    with Suc.prems have nu: "pool st h \<noteq> Symbol ''unquote''"
      and h: "noUnquote d st h" and t: "noUnquote d st t"
      by simp_all
    show ?thesis
      using ConsT nu Suc.IH [OF h] Suc.IH [OF t]
      by (simp add: andThen_def headOf_def)
  qed simp_all
qed

lemma eval_self: "selfEvaluating (pool st e) \<Longrightarrow> eval X (Suc n) env e st = Return e st"
  by (cases "pool st e") (simp_all add: selfEvaluating_def evalStep_def)

text \<open>
  C3 (as amended). For a tree \<open>t\<close> with no \<^verbatim>\<open>unquote\<close> form, \<^verbatim>\<open>quasiquote(env, t)\<close> is
  \<open>t\<close> itself (the same node, and nothing is evaluated or allocated); evaluating the
  result gives \<open>t\<close> back when \<open>t\<close> is self-evaluating, that is neither a \<^verbatim>\<open>Symbol\<close> nor a
  \<^verbatim>\<open>Cons\<close>.
\<close>

theorem quasiquote_round_trip:
  assumes "noUnquote d st t"
  shows "quasiquote ev d env t st = Return t st \<and>
         (selfEvaluating (pool st t) \<longrightarrow>
            andThen (quasiquote ev d env t st) (eval X (Suc n) env) = Return t st)"
  using quasiquote_id [OF assms] eval_self [of st t]
  by (simp add: andThen_def)

theorem quasiquote_round_trip_witness:
  "noUnquote 3 (snd (program (TList [TSym ''a'', TNat 7]))) 7 \<and>
   quasiquote (eval plainOps 3) 3 0 7 (snd (program (TList [TSym ''a'', TNat 7])))
     = Return 7 (snd (program (TList [TSym ''a'', TNat 7]))) \<and>
   selfEvaluating (pool (snd (program (TList [TSym ''a'', TNat 7]))) 5) \<and>
   andThen (quasiquote (eval plainOps 3) 3 0 5 (snd (program (TList [TSym ''a'', TNat 7]))))
     (eval plainOps (Suc 3) 0) = Return 5 (snd (program (TList [TSym ''a'', TNat 7])))"
proof -
  let ?st = "snd (program (TList [TSym ''a'', TNat 7]))"
  have p: "pool ?st 7 = ConsT 4 6" "pool ?st 6 = ConsT 5 0" "pool ?st 4 = Symbol ''a''"
    "pool ?st 5 = Nat64 7" "pool ?st 0 = NilT"
    by (simp_all add: program_def TList_def emplaceBack_def bare_members)
  have n8: "noUnquote 3 ?st 7" and n5: "noUnquote 3 ?st 5"
    by (simp_all add: numeral_3_eq_3 p)
  have s5: "selfEvaluating (pool ?st 5)"
    by (simp add: p selfEvaluating_def)
  have a: "quasiquote (eval plainOps 3) 3 0 7 ?st = Return 7 ?st"
    using quasiquote_round_trip [OF n8] by blast
  have b: "andThen (quasiquote (eval plainOps 3) 3 0 5 ?st) (eval plainOps (Suc 3) 0)
      = Return 5 ?st"
    using quasiquote_round_trip [OF n5] s5 by blast
  show ?thesis
    using a b n8 s5 by blast
qed

text \<open>
  C3 as stated fails for a symbol: the tree \<^verbatim>\<open>x\<close> has no \<^verbatim>\<open>unquote\<close> form and
  \<^verbatim>\<open>quasiquote\<close> returns it, but evaluating it throws (\<^verbatim>\<open>x\<close> is unbound); and the tree
  \<^verbatim>\<open>cond\<close> evaluates to a new \<^verbatim>\<open>Prim\<close> node, not to itself.
\<close>

theorem quasiquote_round_trip_counterexample:
  "noUnquote 1 (snd (program (TSym ''x''))) 4 \<and>
   andThen (quasiquote (eval plainOps 1) 1 0 4 (snd (program (TSym ''x''))))
     (eval plainOps 2 0)
     = Throw (PartialEvalError (UnboundSymbol ''x'') 4) (snd (program (TSym ''x''))) \<and>
   noUnquote 1 (snd (program (TSym ''cond''))) 4 \<and>
   andThen (quasiquote (eval plainOps 1) 1 0 4 (snd (program (TSym ''cond''))))
     (eval plainOps 2 0)
     = Return 5 (snd (emplaceBack (Prim 1) (snd (program (TSym ''cond'')))))"
  by (simp add: run_simps)

lemma cond_head:
  "eval plainOps 4 0 4 (snd condProgram) = Return 15 (snd (emplaceBack (Prim 1) (snd condProgram)))"
  by (simp add: condProgram_def run_simps)

lemma cond_test:
  "eval plainOps 4 0 10 ((snd (emplaceBack (Prim 1) (snd condProgram)))\<lparr>invoked := [P_cond]\<rparr>)
     = Return 3 ((snd (emplaceBack (Prim 41)
          ((snd (emplaceBack (Prim 1) (snd condProgram)))\<lparr>invoked := [P_cond]\<rparr>)))
           \<lparr>invoked := [P_cond, P_binpred Eq 2 3]\<rparr>)"
  by (simp add: condProgram_def run_simps prim_binpred_def natPred_def)

text \<open>
  C9. A \<^verbatim>\<open>cond\<close> application with a test and one branch only, whose test evaluates to
  \<^verbatim>\<open>Bool(false)\<close>, evaluates to the \<^verbatim>\<open>unit\<close> node: the missing branch defaults to it
  and the tail call returns it. The application is one whose head evaluates to the
  primitive \<^verbatim>\<open>cond\<close>.
\<close>

theorem cond_without_else:
  assumes e: "pool st e = ConsT head tail"
    and hd: "eval X n env head st = Return p st1"
    and p: "pool st1 p = Prim i" "i < length (prims st1)" "prims st1 ! i = (False, P_cond)"
    and args: "pool st1 tail = ConsT test t" "pool st1 t = ConsT iftrue u" "\<not> holdsCons st1 u"
    and test: "eval X n env test (st1\<lparr>invoked := invoked st1 @ [P_cond]\<rparr>) = Return b st2"
    and b: "pool st2 b = Bool False"
    and u: "pool st2 (unit st2) = Unit"
  shows "eval X (Suc n) env e st = Return (unit st2) st2"
proof -
  obtain m where n: "n = Suc m"
    using hd by (cases n) simp_all
  have form: "prim_cond (eval X n) env tail (st1\<lparr>invoked := invoked st1 @ [P_cond]\<rparr>)
      = Return (Some env, unit st2) st2"
    using args test b
    by (simp add: prim_cond_def expectCons_def expectBool_def andThen_def holdsCons_def)
  have app: "applyHead X (eval X n) n env e head tail st = Return (Some env, unit st2) st2"
    using hd p form by (simp add: applyHead_def andThen_def call_def)
  have "eval X n env (unit st2) st2 = Return (unit st2) st2"
    unfolding n using u by (intro eval_self) (simp add: selfEvaluating_def)
  with app e show ?thesis
    by (simp add: evalStep_def decorate_def andThen_def)
qed

theorem cond_without_else_witness:
  "eval plainOps 5 0 (fst condProgram) (snd condProgram)
     = Return 1 ((snd (emplaceBack (Prim 41)
          ((snd (emplaceBack (Prim 1) (snd condProgram)))\<lparr>invoked := [P_cond]\<rparr>)))
           \<lparr>invoked := [P_cond, P_binpred Eq 2 3]\<rparr>)"
proof -
  let ?st = "snd condProgram"
  let ?st1 = "snd (emplaceBack (Prim 1) ?st)"
  let ?st2 = "(snd (emplaceBack (Prim 41) (?st1\<lparr>invoked := [P_cond]\<rparr>)))
           \<lparr>invoked := [P_cond, P_binpred Eq 2 3]\<rparr>"
  have e: "pool ?st (fst condProgram) = ConsT 4 13"
    by (simp add: condProgram_def program_def TList_def emplaceBack_def bare_members)
  have p: "pool ?st1 15 = Prim 1" "1 < length (prims ?st1)" "prims ?st1 ! 1 = (False, P_cond)"
    by (simp_all add: condProgram_def program_def TList_def emplaceBack_def bare_members
        bare_prims primitives_def)
  have args: "pool ?st1 13 = ConsT 10 12" "pool ?st1 12 = ConsT 11 0" "\<not> holdsCons ?st1 0"
    by (simp_all add: condProgram_def program_def TList_def emplaceBack_def bare_members
        holdsCons_def)
  have inv: "?st1\<lparr>invoked := invoked ?st1 @ [P_cond]\<rparr> = ?st1\<lparr>invoked := [P_cond]\<rparr>"
    by (simp add: condProgram_def program_def TList_def emplaceBack_def bare_members)
  have test: "eval plainOps 4 0 10 (?st1\<lparr>invoked := invoked ?st1 @ [P_cond]\<rparr>) = Return 3 ?st2"
    unfolding inv by (rule cond_test)
  have b: "pool ?st2 3 = Bool False" and u: "pool ?st2 (unit ?st2) = Unit"
    by (simp_all add: condProgram_def program_def TList_def emplaceBack_def bare_members)
  have "eval plainOps (Suc 4) 0 (fst condProgram) ?st = Return (unit ?st2) ?st2"
    using e cond_head p args test b u by (rule cond_without_else)
  moreover have "unit ?st2 = 1"
    by (simp add: condProgram_def program_def TList_def emplaceBack_def bare_members)
  ultimately show ?thesis
    by (simp add: eval_nat_numeral)
qed

section \<open>Properties of the resolver\<close>

lemma onlyAllocates_refl: "onlyAllocates st st"
  by (simp add: onlyAllocates_def)

lemma onlyAllocates_trans: "onlyAllocates a b \<Longrightarrow> onlyAllocates b c \<Longrightarrow> onlyAllocates a c"
  unfolding onlyAllocates_def
  by (metis (no_types, lifting) Evaluator.surjective Evaluator.update_convs(1,2))

lemma onlyAllocates_emplaceBack: "emplaceBack t st = (a, st') \<Longrightarrow> onlyAllocates st st'"
  by (auto simp: emplaceBack_def onlyAllocates_def)

lemma onlyAllocates_ruleNodes: "ruleNodes name rs st = (cs, st') \<Longrightarrow> onlyAllocates st st'"
proof (induction rs arbitrary: st cs)
  case Nil
  then show ?case by (simp add: onlyAllocates_refl)
next
  case (Cons r rs)
  then show ?case
    by (auto split: prod.splits
        intro: onlyAllocates_trans [OF onlyAllocates_emplaceBack
                 onlyAllocates_trans [OF onlyAllocates_emplaceBack]])
qed

lemma onlyAllocates_leafNode: "leafNode name lx st = (c, st') \<Longrightarrow> onlyAllocates st st'"
  by (auto simp: leafNode_def split: prod.splits
      intro: onlyAllocates_trans [OF onlyAllocates_emplaceBack
               onlyAllocates_trans [OF onlyAllocates_emplaceBack
                 onlyAllocates_trans [OF onlyAllocates_emplaceBack onlyAllocates_emplaceBack]]])

lemma onlyAllocates_consOnto: "consOnto c rs st = (xs, st') \<Longrightarrow> onlyAllocates st st'"
proof (induction rs arbitrary: st xs)
  case Nil
  then show ?case by (simp add: onlyAllocates_refl)
next
  case (Cons r rs)
  then show ?case
    by (auto split: prod.splits intro: onlyAllocates_trans [OF onlyAllocates_emplaceBack])
qed

lemma onlyAllocates_consProduct: "consProduct cs rs st = (xs, st') \<Longrightarrow> onlyAllocates st st'"
proof (induction cs arbitrary: st xs)
  case Nil
  then show ?case by (simp add: onlyAllocates_refl)
next
  case (Cons c cs)
  then show ?case
    by (auto split: prod.splits intro: onlyAllocates_trans [OF onlyAllocates_consOnto])
qed

lemma onlyAllocates_tokenLeaf: "tokenLeaf pos st = Return cs st' \<Longrightarrow> onlyAllocates st st'"
  by (auto simp: tokenLeaf_def Let_def split: if_splits prod.splits
      intro: onlyAllocates_leafNode)

lemma onlyAllocates_parser: "onlyAllocates st st' \<Longrightarrow> parser st' = parser st"
  and onlyAllocates_ruleNames: "onlyAllocates st st' \<Longrightarrow> ruleNames st' = ruleNames st"
  and onlyAllocates_patternNames: "onlyAllocates st st' \<Longrightarrow> patternNames st' = patternNames st"
  and onlyAllocates_nil: "onlyAllocates st st' \<Longrightarrow> nil st' = nil st"
  unfolding onlyAllocates_def
  by (metis Evaluator.select_convs Evaluator.surjective Evaluator.update_convs(1,2))+


lemma andThen_Return:
  "andThen r f = Return b s' \<longleftrightarrow> (\<exists>a s. r = Return a s \<and> f a s = Return b s')"
  by (cases r) (simp_all add: andThen_def)

lemma andThen_ReturnE:
  assumes "andThen r f = Return b s'"
  obtains a s where "r = Return a s" and "f a s = Return b s'"
  using assms by (auto simp: andThen_Return)

lemma onlyAllocates_resolve:
  "resolveLoc k loc right d st = Return r st' \<Longrightarrow> onlyAllocates st st'"
  "resolveLinks k loc links right d st = Return r st' \<Longrightarrow> onlyAllocates st st'"
proof (induction k loc right d st and k loc links right d st arbitrary: r st' and r st'
    rule: resolveLoc_resolveLinks.induct)
  case (1 loc right maxDepth st)
  then show ?case by simp
next
  case (2 k loc right maxDepth st)
  from "2.prems" show ?case
    by (auto simp: onlyAllocates_refl split: if_splits prod.splits
        intro: onlyAllocates_ruleNodes "2.IH")
next
  case (3 loc links right maxDepth st)
  then show ?case by simp
next
  case (4 k loc right maxDepth st)
  then show ?case by (simp add: onlyAllocates_refl)
next
  case (5 k loc prevLink childLink links right maxDepth st)
  from "5.prems" have "andThen (case childLink of None \<Rightarrow> tokenLeaf (fst loc) st
          | Some c \<Rightarrow> resolveLoc k c [nil st] (maxDepth - 1) st) (\<lambda>child st.
       case consProduct child right st of (cur, st) \<Rightarrow>
         andThen (resolveLoc k prevLink cur maxDepth st) (\<lambda>final st.
         andThen (resolveLinks k loc links right maxDepth st) (\<lambda>rest.
           Return (final @ rest)))) = Return r st'"
    by simp
  then obtain child s1 where
    c: "(case childLink of None \<Rightarrow> tokenLeaf (fst loc) st
          | Some c \<Rightarrow> resolveLoc k c [nil st] (maxDepth - 1) st) = Return child s1"
    and k1: "(case consProduct child right s1 of (cur, st) \<Rightarrow>
               andThen (resolveLoc k prevLink cur maxDepth st) (\<lambda>final st.
               andThen (resolveLinks k loc links right maxDepth st) (\<lambda>rest.
                 Return (final @ rest)))) = Return r st'"
    by (rule andThen_ReturnE)
  obtain cur s2 where p: "consProduct child right s1 = (cur, s2)"
    by (cases "consProduct child right s1")
  from k1 p have "andThen (resolveLoc k prevLink cur maxDepth s2) (\<lambda>final st.
               andThen (resolveLinks k loc links right maxDepth st) (\<lambda>rest.
                 Return (final @ rest))) = Return r st'"
    by simp
  then obtain final s3 where
    f: "resolveLoc k prevLink cur maxDepth s2 = Return final s3"
    and k2: "andThen (resolveLinks k loc links right maxDepth s3) (\<lambda>rest.
                 Return (final @ rest)) = Return r st'"
    by (rule andThen_ReturnE)
  from k2 obtain rest where r: "resolveLinks k loc links right maxDepth s3 = Return rest st'"
    by (auto elim: andThen_ReturnE)
  have 1: "onlyAllocates st s1"
    using c "5.IH"(1) by (cases childLink) (auto intro: onlyAllocates_tokenLeaf)
  have 2: "onlyAllocates s1 s2"
    using p by (rule onlyAllocates_consProduct)
  have 3: "onlyAllocates s2 s3"
    using "5.IH"(2) p f by metis
  have 4: "onlyAllocates s3 st'"
    using "5.IH"(3) p r by metis
  from 1 2 3 4 show ?case
    by (blast intro: onlyAllocates_trans)
qed

lemma completedStart_parser: "parser st' = parser st \<Longrightarrow> completedStart st' = completedStart st"
  by (rule ext) (simp add: completedStart_def)

lemma resolveItems_materialize:
  assumes "\<forall>i \<in> set is. completedStart st (fst (forest (parser st) ! pos ! i)) \<noteq> None"
  shows "resolveItems k pos d is st =
           materialize k pos d
             (filter (\<lambda>i. completedStart st (fst (forest (parser st) ! pos ! i)) = Some True) is) st"
  using assms
proof (induction "is" arbitrary: st)
  case Nil
  show ?case by simp
next
  case (Cons i "is")
  from Cons.prems obtain c where c: "completedStart st (fst (forest (parser st) ! pos ! i)) = Some c"
    by auto
  have rest: "resolveItems k pos d is s =
      materialize k pos d
        (filter (\<lambda>i. completedStart st (fst (forest (parser st) ! pos ! i)) = Some True) is) s"
    if "onlyAllocates st s" for s
  proof -
    have ps: "parser s = parser st"
      using that by (rule onlyAllocates_parser)
    have "\<forall>i \<in> set is. completedStart s (fst (forest (parser s) ! pos ! i)) \<noteq> None"
      using Cons.prems by (simp add: ps completedStart_parser [OF ps])
    from Cons.IH [OF this] show ?thesis
      by (simp add: ps completedStart_parser [OF ps])
  qed
  show ?case
  proof (cases c)
    case True
    show ?thesis
    proof (cases "resolveLoc k (pos, i) [nil st] d st")
      case (Return final s)
      then have "onlyAllocates st s"
        by (rule onlyAllocates_resolve(1))
      from rest [OF this] show ?thesis
        using c True Return by (simp add: andThen_def)
    qed (use c True in \<open>simp_all add: andThen_def\<close>)
  next
    case False
    with c rest [OF onlyAllocates_refl] show ?thesis
      by (simp add: andThen_def split: outcome.splits)
  qed
qed

text \<open>
  C5. The top-level \<^verbatim>\<open>resolve\<close> materializes the completed start-symbol items at the
  end of the sentence, in their order, and applies the result policy to the trees
  collected: none is fatal, exactly one is returned, more than one is fatal after every
  candidate has been written out.
\<close>

theorem resolve_policy:
  assumes "length (sentence (parser st)) < length (forest (parser st))"
    and "\<forall>i < length (forest (parser st) ! length (sentence (parser st))).
           completedStart st (fst (forest (parser st) ! length (sentence (parser st)) ! i)) \<noteq> None"
  shows "resolve X k maxDepth st =
           resultPolicy X
             (materialize k (length (sentence (parser st))) maxDepth
                (completedStartItems st (length (sentence (parser st)))) st)"
proof -
  let ?pos = "length (sentence (parser st))"
  have items: "resolveItems k ?pos maxDepth [0..<length (forest (parser st) ! ?pos)] st =
      materialize k ?pos maxDepth (completedStartItems st ?pos) st"
    unfolding completedStartItems_def
    by (rule resolveItems_materialize) (use assms(2) in simp)
  show ?thesis
    using assms(1)
    by (auto simp: resolve_def Let_def items resultPolicy_def andThen_def
        split: outcome.splits list.splits)
qed

theorem resolve_policy_witness:
  "resolve plainOps 1 1 (parsed []) = Throw NotImplemented (parsed []) \<and>
   resolve plainOps 1 1 (parsed [emptyRule])
     = Return 5 (snd (emplaceBack (ConsT 4 0) (snd (emplaceBack (Symbol ''r'') (parsed [emptyRule]))))) \<and>
   resolve plainOps 1 1 (parsed [emptyRule, emptyRule])
     = Throw NotImplemented
         ((snd (emplaceBack (ConsT 6 0) (snd (emplaceBack (Symbol ''r'')
            (snd (emplaceBack (ConsT 4 0) (snd (emplaceBack (Symbol ''r'')
               (parsed [emptyRule, emptyRule])))))))))\<lparr>cout := [[], []]\<rparr>)"
proof -
  have h1: "length (sentence (parser (parsed items))) < length (forest (parser (parsed items)))"
    for items
    by (simp add: parsed_def)
  have h2: "\<forall>i < length (forest (parser (parsed items)) ! length (sentence (parser (parsed items)))).
           completedStart (parsed items)
             (fst (forest (parser (parsed items)) ! length (sentence (parser (parsed items))) ! i))
           \<noteq> None"
    if "\<forall>x \<in> set items. rule (fst x) = 0" for items
    using that by (simp add: parsed_def completedStart_def)
  have f: "sentence (parser (parsed items)) = []" "forest (parser (parsed items)) = [items]"
    "ruleNames (parsed items) = [''r'']" "nil (parsed items) = 0" "poolSize (parsed items) = 4"
    "cout (parsed items) = []"
    "parserRules (parser (parsed items)) = [((StartSymbol, 0), [])]" for items
    by (simp_all add: parsed_def bare_members bareEvaluator_def registerPrimitives_def
        primitives_def addPrimitive_def emplaceBack_def initMembers_def)
  show ?thesis
    using resolve_policy [OF h1 h2, of "[]" plainOps 1 1]
      resolve_policy [OF h1 h2, of "[emptyRule]" plainOps 1 1]
      resolve_policy [OF h1 h2, of "[emptyRule, emptyRule]" plainOps 1 1]
    by (simp add: completedStartItems_def completedStart_def emptyRule_def f resultPolicy_def
        andThen_def emplaceBack_def plainOps_def upt_rec)
qed

end
